theory Spec2Isabelle
  imports Main "HOL-Library.Sublist"
begin

section \<open>The research assistant: data models\<close>

text \<open>
  The repository holds two variants of one Streamlit script, \<^verbatim>\<open>src/agent.py\<close> and
  \<^verbatim>\<open>src/research_agent.py\<close>. Both sequence five calls of an external agent runtime
  (\<^verbatim>\<open>Runner.run\<close>) and keep their results in \<^verbatim>\<open>st.session_state\<close>. Definitions that
  are the same in both files are given once; where the files differ, the definition taken
  from \<^verbatim>\<open>research_agent.py\<close> carries the suffix \<open>_RA\<close>.

  Python \<^verbatim>\<open>str\<close> is modelled as \<open>string\<close>. Calls that only render text on the page
  (\<^verbatim>\<open>st.write\<close>, \<^verbatim>\<open>st.info\<close>, \<^verbatim>\<open>st.success\<close>, expanders,
  captions of widgets) are not modelled; \<^verbatim>\<open>st.error\<close> is, since it is how a failure is reported.
\<close>

record ResearchGaps =
  gaps :: "string list"
  improvements :: "string list"
  areas_to_expand :: "string list"

record ResearchPlan =
  topic :: string
  search_queries :: "string list"
  focus_areas :: "string list"

record ResearchReport =
  title :: string
  outline :: "string list"
  report :: string
  sources :: "string list"
  word_count :: int

record Comparison =
  original_summary :: string
  improvements_made :: "string list"
  quality_assessment :: string
  depth_increase :: string
  new_insights :: "string list"

text \<open>
  An entry of \<^verbatim>\<open>st.session_state.collected_facts\<close>: the dictionary with the keys
  \<^verbatim>\<open>"fact"\<close>, \<^verbatim>\<open>"source"\<close> and \<^verbatim>\<open>"timestamp"\<close>.
\<close>

record CollectedFact =
  fact_str :: string
  source :: string
  timestamp :: string

subsection \<open>The clock\<close>

text \<open>
  A reading of \<^verbatim>\<open>datetime.now()\<close>. The two format strings of the source are
  \<^verbatim>\<open>"%H:%M:%S"\<close> and \<^verbatim>\<open>"%Y%m%d_%H%M%S"\<close>. \<^verbatim>\<open>%m\<close>, \<^verbatim>\<open>%d\<close>,
  \<^verbatim>\<open>%H\<close>, \<^verbatim>\<open>%M\<close> and \<^verbatim>\<open>%S\<close> print a field in decimal with a leading zero
  when it is below ten; \<^verbatim>\<open>%Y\<close> prints the year in decimal with no padding, so a year
  below 1000 comes out with fewer than four digits.
\<close>

record datetime =
  year :: nat
  month :: nat
  day :: nat
  hour :: nat
  minute :: nat
  second :: nat

text \<open>The last decimal digit of a number, as a character.\<close>

definition digit :: "nat \<Rightarrow> char" where
  "digit k = ''0123456789'' ! (k mod 10)"

fun decimal :: "nat \<Rightarrow> string" where
  "decimal n = (if n < 10 then [digit n] else decimal (n div 10) @ [digit n])"

declare decimal.simps [simp del]

definition pad2 :: "nat \<Rightarrow> string" where
  "pad2 n = (if n < 10 then CHR ''0'' # decimal n else decimal n)"

definition strftime_H_M_S :: "datetime \<Rightarrow> string" where
  "strftime_H_M_S t = pad2 (hour t) @ '':'' @ pad2 (minute t) @ '':'' @ pad2 (second t)"

definition strftime_Ymd_HMS :: "datetime \<Rightarrow> string" where
  "strftime_Ymd_HMS t =
     decimal (year t) @ pad2 (month t) @ pad2 (day t) @ ''_'' @
     pad2 (hour t) @ pad2 (minute t) @ pad2 (second t)"

text \<open>
  The readings \<^verbatim>\<open>datetime.now()\<close> can give from the year 1000 on: the ranges of the
  fields of a Python \<^verbatim>\<open>datetime\<close>, whose year is at most 9999.
\<close>

definition valid_datetime :: "datetime \<Rightarrow> bool" where
  "valid_datetime t =
     (1000 \<le> year t \<and> year t \<le> 9999 \<and> 1 \<le> month t \<and> month t \<le> 12 \<and>
      1 \<le> day t \<and> day t \<le> 31 \<and> hour t < 24 \<and> minute t < 60 \<and> second t < 60)"

subsection \<open>Session state\<close>

text \<open>
  \<^verbatim>\<open>st.session_state\<close> after the initialisation block of the script. The key
  \<^verbatim>\<open>collected_facts\<close> is an option because \<^verbatim>\<open>save_important_fact\<close> tests whether it
  is present; \<open>None\<close> in \<open>report_result\<close>, \<open>original_content\<close> and
  \<open>comparison_result\<close> is Python's \<^verbatim>\<open>None\<close>. \<open>step_completed\<close> is the dictionary of
  completion flags.
\<close>

record session_state =
  conversation_id :: string
  collected_facts :: "CollectedFact list option"
  research_done :: bool
  report_result :: "ResearchReport option"
  original_content :: "string option"
  comparison_result :: "Comparison option"
  current_step :: int
  step_completed :: "string \<rightharpoonup> bool"

text \<open>
  The block \<^verbatim>\<open>SESSION STATE INITIALIZATION\<close> on a session with no key yet; the
  conversation identifier is sixteen hexadecimal digits of a fresh UUID, taken as a parameter.
\<close>

definition initial_session_state :: "string \<Rightarrow> session_state" where
  "initial_session_state uuid_hex16 =
     \<lparr>conversation_id = uuid_hex16,
      collected_facts = Some [],
      research_done = False,
      report_result = None,
      original_content = None,
      comparison_result = None,
      current_step = 0,
      step_completed =
        [''upload'' \<mapsto> False, ''planning'' \<mapsto> False, ''research'' \<mapsto> False,
         ''report'' \<mapsto> False, ''comparison'' \<mapsto> False]\<rparr>"

section \<open>Utility functions: the document loader\<close>

text \<open>
  An uploaded PDF as \<^verbatim>\<open>PyPDF2\<close> presents it: \<^verbatim>\<open>PdfReader(pdf_file)\<close> raises (\<open>Inl\<close>
  with the message of the exception) or gives the pages in document order, and
  \<^verbatim>\<open>page.extract_text()\<close> raises or returns the text of the page. A text file is the
  outcome of \<^verbatim>\<open>text_file.read().decode("utf-8")\<close>.
\<close>

type_synonym pdf_page = "string + string"
type_synonym pdf_file = "string + pdf_page list"
type_synonym text_file = "string + string"

text \<open>What the script does besides changing the session state, in the order it happens.\<close>

datatype agent =
  gap_analysis_agent | planning_agent | research_agent | editor_agent | comparison_agent

datatype event =
  RunnerRun agent string
  | StError string
  | SetStepCompleted string

text \<open>
  The loop \<^verbatim>\<open>for page in pdf_reader.pages: text += page.extract_text()\<close>, from the
  value of \<^verbatim>\<open>text\<close> so far; an exception leaves the loop.
\<close>

fun extract_pages :: "string \<Rightarrow> pdf_page list \<Rightarrow> string + string" where
  "extract_pages text [] = Inr text"
| "extract_pages text (page # pages) =
     (case page of
        Inl e \<Rightarrow> Inl e
      | Inr page_text \<Rightarrow> extract_pages (text @ page_text) pages)"

text \<open>\<^verbatim>\<open>research_agent.py\<close>: no handler, the exception reaches the caller.\<close>

definition extract_pdf_text_RA :: "pdf_file \<Rightarrow> string + string" where
  "extract_pdf_text_RA pdf_file =
     (case pdf_file of
        Inl e \<Rightarrow> Inl e
      | Inr pages \<Rightarrow> extract_pages [] pages)"

text \<open>
  \<^verbatim>\<open>agent.py\<close>: the same body inside \<^verbatim>\<open>try\<close>; the handler reports the error and
  returns \<^verbatim>\<open>None\<close>.
\<close>

definition extract_pdf_text :: "pdf_file \<Rightarrow> string option \<times> event list" where
  "extract_pdf_text pdf_file =
     (case extract_pdf_text_RA pdf_file of
        Inl e \<Rightarrow> (None, [StError (''Error extracting PDF: '' @ e)])
      | Inr text \<Rightarrow> (Some text, []))"

definition extract_text_file_RA :: "text_file \<Rightarrow> string + string" where
  "extract_text_file_RA text_file = text_file"

definition extract_text_file :: "text_file \<Rightarrow> string option \<times> event list" where
  "extract_text_file text_file =
     (case text_file of
        Inl e \<Rightarrow> (None, [StError (''Error reading text file: '' @ e)])
      | Inr text \<Rightarrow> (Some text, []))"

section \<open>Custom tools: the fact sink\<close>

text \<open>Python's \<^verbatim>\<open>source or "Not specified"\<close>: \<^verbatim>\<open>None\<close> and the empty string are falsy.\<close>

definition py_or :: "string option \<Rightarrow> string \<Rightarrow> string" where
  "py_or v dflt = (case v of None \<Rightarrow> dflt | Some x \<Rightarrow> if x = [] then dflt else x)"

text \<open>
  \<^verbatim>\<open>save_important_fact(fact, source=None)\<close>; the third argument is the reading of the
  clock at the call. It returns the acknowledgement and the new session state.
\<close>

definition save_important_fact ::
  "string \<Rightarrow> string option \<Rightarrow> datetime \<Rightarrow> session_state \<Rightarrow> string \<times> session_state" where
  "save_important_fact fact_arg source_arg now s =
     (let facts = (case collected_facts s of None \<Rightarrow> [] | Some fs \<Rightarrow> fs);
          entry = \<lparr>fact_str = fact_arg,
                   source = py_or source_arg ''Not specified'',
                   timestamp = strftime_H_M_S now\<rparr>
      in (''Fact saved: '' @ fact_arg, s\<lparr>collected_facts := Some (facts @ [entry])\<rparr>))"

text \<open>The collected facts as the page displays them, in insertion order.\<close>

definition snapshot :: "session_state \<Rightarrow> CollectedFact list" where
  "snapshot s = (case collected_facts s of None \<Rightarrow> [] | Some fs \<Rightarrow> fs)"

section \<open>The download button\<close>

text \<open>
  The arguments of \<^verbatim>\<open>st.download_button\<close>, the same call in both files (the caption
  \<^verbatim>\<open>label\<close> is rendering only).
\<close>

record download =
  data :: string
  file_name :: string
  mime :: string

definition download_button :: "ResearchReport \<Rightarrow> datetime \<Rightarrow> download" where
  "download_button rep now =
     \<lparr>data = report rep,
      file_name = ''research_report_'' @ strftime_Ymd_HMS now @ ''.md'',
      mime = ''text/markdown''\<rparr>"

text \<open>
  The report tab: the button is drawn when \<^verbatim>\<open>st.session_state.report_result\<close> is truthy
  (the \<^verbatim>\<open>hasattr(report, "report")\<close> test holds for a \<^verbatim>\<open>ResearchReport\<close>). In
  \<^verbatim>\<open>agent.py\<close> the tabs are drawn only when \<^verbatim>\<open>research_done\<close> is set.
\<close>

definition report_tab :: "session_state \<Rightarrow> datetime \<Rightarrow> download option" where
  "report_tab s now =
     (case report_result s of
        Some rep \<Rightarrow> Some (download_button rep now)
      | None \<Rightarrow> None)"

definition display_results :: "session_state \<Rightarrow> datetime \<Rightarrow> download option" where
  "display_results s now = (if research_done s then report_tab s now else None)"

text \<open>The file name pattern \<^verbatim>\<open>research_report_<YYYYMMDD_HHMMSS>.md\<close>, as a test on a string.\<close>

definition is_digit :: "char \<Rightarrow> bool" where
  "is_digit c = (c \<in> set ''0123456789'')"

definition matches_report_name :: "string \<Rightarrow> bool" where
  "matches_report_name f =
     (length f = 34 \<and>
      take 16 f = ''research_report_'' \<and>
      list_all is_digit (take 8 (drop 16 f)) \<and>
      f ! 24 = CHR ''_'' \<and>
      list_all is_digit (take 6 (drop 25 f)) \<and>
      drop 31 f = ''.md'')"

text \<open>
  The time a file name of that pattern states: the number each group of digits denotes.
  \<open>read_decimal\<close> reads a digit string as a number by the character codes, with no
  reference to how the name was printed.
\<close>

definition read_decimal :: "string \<Rightarrow> nat" where
  "read_decimal ds = foldl (\<lambda>n c. 10 * n + (of_char c - 48)) 0 ds"

definition name_clock :: "string \<Rightarrow> datetime" where
  "name_clock f =
     \<lparr>year = read_decimal (take 4 (drop 16 f)),
      month = read_decimal (take 2 (drop 20 f)),
      day = read_decimal (take 2 (drop 22 f)),
      hour = read_decimal (take 2 (drop 25 f)),
      minute = read_decimal (take 2 (drop 27 f)),
      second = read_decimal (take 2 (drop 29 f))\<rparr>"

section \<open>The agent runtime\<close>

text \<open>
  \<^verbatim>\<open>Runner.run(agent, prompt)\<close> belongs to the external \<^verbatim>\<open>agents\<close> package, so its
  outcome is a parameter of the model: it raises (\<open>Inl\<close> with \<^verbatim>\<open>str(e)\<close>), or it returns a
  value. The returned value is \<open>Some\<close> run result with its \<^verbatim>\<open>final_output\<close>, or \<open>None\<close>
  for a falsy value, the case \<^verbatim>\<open>research_result.final_output if research_result else ...\<close>
  provides for. The outputs have the \<^verbatim>\<open>output_type\<close> the agent is declared with; the
  research agent declares none and returns text.
\<close>

datatype 'a RunResult = RunResult (final_output: 'a)

type_synonym 'a awaited = "string + 'a RunResult option"

text \<open>
  One call of the tool \<^verbatim>\<open>save_important_fact\<close> by the research agent: the arguments
  \<^verbatim>\<open>fact\<close> and \<^verbatim>\<open>source\<close> (\<open>None\<close> when omitted) and the clock at the call.
\<close>

type_synonym tool_call = "string \<times> string option \<times> datetime"

text \<open>
  Only \<^verbatim>\<open>research_agent\<close> is given tools, so only its run comes with tool calls, made
  before the run raises or returns. \<open>str_gaps\<close> is \<^verbatim>\<open>str\<close> of a \<^verbatim>\<open>ResearchGaps\<close>
  (pydantic's rendering).
\<close>

record runtime =
  run_gap_analysis :: "string \<Rightarrow> ResearchGaps awaited"
  run_planning :: "string \<Rightarrow> ResearchPlan awaited"
  run_researcher :: "string \<Rightarrow> tool_call list \<times> string awaited"
  run_editor :: "string \<Rightarrow> ResearchReport awaited"
  run_comparison :: "string \<Rightarrow> Comparison awaited"
  str_gaps :: "ResearchGaps \<Rightarrow> string"

text \<open>The message of the \<^verbatim>\<open>AttributeError\<close> of \<^verbatim>\<open>None.final_output\<close>.\<close>

definition NoneType_error :: string where
  "NoneType_error =
     [CHR 0x27] @ ''NoneType'' @ [CHR 0x27] @ '' object has no attribute '' @
     [CHR 0x27] @ ''final_output'' @ [CHR 0x27]"

text \<open>\<^verbatim>\<open>(await Runner.run(...)).final_output\<close>.\<close>

definition get_final_output :: "'a awaited \<Rightarrow> string + 'a" where
  "get_final_output r =
     (case r of
        Inl e \<Rightarrow> Inl e
      | Inr None \<Rightarrow> Inl NoneType_error
      | Inr (Some res) \<Rightarrow> Inr (final_output res))"

text \<open>The test \<^verbatim>\<open>if original_content:\<close>: \<^verbatim>\<open>None\<close> and the empty text are falsy.\<close>

definition truthy_str :: "string option \<Rightarrow> string option" where
  "truthy_str v = (case v of None \<Rightarrow> None | Some x \<Rightarrow> if x = [] then None else Some x)"

text \<open>\<^verbatim>\<open>sep.join(xs)\<close>.\<close>

fun join :: "string \<Rightarrow> string list \<Rightarrow> string" where
  "join sep [] = []"
| "join sep [x] = x"
| "join sep (x # y # ys) = x @ sep @ join sep (y # ys)"

subsection \<open>Prompts\<close>

text \<open>
  The f-strings of \<^verbatim>\<open>run_research\<close>. The two files differ only in blank lines: where
  \<^verbatim>\<open>agent.py\<close> has one line break between the parts of a prompt,
  \<^verbatim>\<open>research_agent.py\<close> has two. \<open>par\<close> is that separator.
\<close>

definition par_agent :: string where
  "par_agent = ''\<newline>''"

definition par_RA :: string where
  "par_RA = ''\<newline>\<newline>''"

definition gap_prompt_text :: "string \<Rightarrow> string \<Rightarrow> string \<Rightarrow> string" where
  "gap_prompt_text par content query =
     ''Original Research Content:\<newline>'' @ content @ par @
     ''Research Query: '' @ query @ par @
     ''Analyze this research for gaps and improvements needed.''"

definition plan_prompt_text :: "string \<Rightarrow> string \<Rightarrow> string \<Rightarrow> string" where
  "plan_prompt_text par query gaps_text =
     ''Research Query: '' @ query @ par @
     ''Gaps to fill: '' @ gaps_text @ par @
     ''Create a research plan with targeted search queries and focus areas.''"

definition bare_plan_prompt_text :: "string \<Rightarrow> string" where
  "bare_plan_prompt_text query = ''Create a comprehensive research plan for: '' @ query"

definition research_prompt_text :: "string \<Rightarrow> ResearchPlan \<Rightarrow> string" where
  "research_prompt_text par research_plan =
     ''Research queries to investigate:\<newline>'' @
     join '', '' (search_queries research_plan) @ par @
     ''Focus areas:\<newline>'' @
     join '', '' (focus_areas research_plan) @ par @
     ''Research these thoroughly and compile findings.''"

definition report_prompt_text :: "string \<Rightarrow> string \<Rightarrow> string \<Rightarrow> string" where
  "report_prompt_text par query findings =
     ''Research Query: '' @ query @ par @
     ''Research Findings:\<newline>'' @ findings @ par @
     ''Write a comprehensive, detailed research report (5-10 pages, 1500+ words).\<newline>'' @
     ''Use clear sections, headings, and professional formatting.''"

definition comparison_prompt_text :: "string \<Rightarrow> string \<Rightarrow> string \<Rightarrow> string" where
  "comparison_prompt_text par content new_report =
     ''Original Research:\<newline>'' @ content @ par @
     ''New Research Generated:\<newline>'' @ new_report @ par @
     ''Provide a detailed comparison of both research pieces.''"

text \<open>
  \<^verbatim>\<open>research_result.final_output if research_result else 'Research completed'\<close>: the
  test is on the value \<^verbatim>\<open>Runner.run\<close> returned, not on its \<^verbatim>\<open>final_output\<close>.
\<close>

definition findings_text :: "string RunResult option \<Rightarrow> string" where
  "findings_text research_result =
     (case research_result of
        Some res \<Rightarrow> final_output res
      | None \<Rightarrow> ''Research completed'')"

text \<open>
  \<^verbatim>\<open>gap_result.final_output if gaps_data else 'General research needed'\<close>, where
  \<^verbatim>\<open>gaps_data\<close> is the output when it has the attribute \<^verbatim>\<open>gaps\<close>.
\<close>

definition gaps_text :: "runtime \<Rightarrow> ResearchGaps option \<Rightarrow> string" where
  "gaps_text rt gaps_data =
     (case gaps_data of
        Some g \<Rightarrow> str_gaps rt g
      | None \<Rightarrow> ''General research needed'')"

definition plan_prompt_for :: "runtime \<Rightarrow> string \<Rightarrow> string \<Rightarrow> string option \<Rightarrow> ResearchGaps option \<Rightarrow> string" where
  "plan_prompt_for rt par query original gaps_data =
     (case truthy_str original of
        Some content \<Rightarrow> plan_prompt_text par query (gaps_text rt gaps_data)
      | None \<Rightarrow> bare_plan_prompt_text query)"

section \<open>The workflow of \<^verbatim>\<open>agent.py\<close>\<close>

text \<open>
  A run threads the session state and the events of the run so far. A step returns
  \<open>Inl\<close> with the state at the \<^verbatim>\<open>return\<close> of its \<^verbatim>\<open>except\<close> branch, or \<open>Inr\<close> with
  the state and the local variables the later steps read.
\<close>

type_synonym run_state = "session_state \<times> event list"

definition emit :: "event \<Rightarrow> run_state \<Rightarrow> run_state" where
  "emit e rs = (fst rs, snd rs @ [e])"

text \<open>\<^verbatim>\<open>st.session_state.step_completed[key] = True\<close>.\<close>

definition set_step :: "string \<Rightarrow> run_state \<Rightarrow> run_state" where
  "set_step key rs =
     ((fst rs)\<lparr>step_completed := (step_completed (fst rs))(key \<mapsto> True)\<rparr>,
      snd rs @ [SetStepCompleted key])"

text \<open>The research agent's tool calls, in order.\<close>

fun run_tool_calls :: "tool_call list \<Rightarrow> session_state \<Rightarrow> session_state" where
  "run_tool_calls [] s = s"
| "run_tool_calls ((fact_arg, source_arg, now) # calls) s =
     run_tool_calls calls (snd (save_important_fact fact_arg source_arg now s))"

text \<open>The four assignments at the start of \<^verbatim>\<open>run_research\<close>.\<close>

definition reset_results :: "session_state \<Rightarrow> session_state" where
  "reset_results s =
     s\<lparr>collected_facts := Some [],
       research_done := False,
       report_result := None,
       comparison_result := None\<rparr>"

text \<open>STEP 1: analyze existing research (if provided).\<close>

definition step1_analyze ::
  "runtime \<Rightarrow> string \<Rightarrow> string option \<Rightarrow> run_state \<Rightarrow> run_state + run_state \<times> ResearchGaps option" where
  "step1_analyze rt query original rs =
     (case truthy_str original of
        None \<Rightarrow> Inr (rs, None)
      | Some content \<Rightarrow>
          (let gap_prompt = gap_prompt_text par_agent content query;
               rs1 = emit (RunnerRun gap_analysis_agent gap_prompt) rs
           in case get_final_output (run_gap_analysis rt gap_prompt) of
                Inl e \<Rightarrow> Inl (emit (StError (''Error in gap analysis: '' @ e)) rs1)
              | Inr out \<Rightarrow> Inr (rs1, Some out)))"

text \<open>STEP 2: plan research.\<close>

definition step2_plan ::
  "runtime \<Rightarrow> string \<Rightarrow> string option \<Rightarrow> ResearchGaps option \<Rightarrow> run_state \<Rightarrow>
     run_state + run_state \<times> ResearchPlan" where
  "step2_plan rt query original gaps_data rs =
     (let plan_prompt = plan_prompt_for rt par_agent query original gaps_data;
          rs1 = emit (RunnerRun planning_agent plan_prompt) rs
      in case get_final_output (run_planning rt plan_prompt) of
           Inl e \<Rightarrow> Inl (emit (StError (''Error in planning: '' @ e)) rs1)
         | Inr research_plan \<Rightarrow> Inr (set_step ''planning'' rs1, research_plan))"

text \<open>
  STEP 3: conduct research. The tool calls of the research agent change the session state
  whether its run returns or raises.
\<close>

definition step3_research ::
  "runtime \<Rightarrow> ResearchPlan \<Rightarrow> run_state \<Rightarrow> run_state + run_state \<times> string RunResult option" where
  "step3_research rt research_plan rs =
     (let research_prompt = research_prompt_text par_agent research_plan;
          rs1 = emit (RunnerRun research_agent research_prompt) rs;
          rs2 = (run_tool_calls (fst (run_researcher rt research_prompt)) (fst rs1), snd rs1)
      in case snd (run_researcher rt research_prompt) of
           Inl e \<Rightarrow> Inl (emit (StError (''Error in research: '' @ e)) rs2)
         | Inr research_result \<Rightarrow> Inr (set_step ''research'' rs2, research_result))"

text \<open>STEP 4: generate the report.\<close>

definition step4_report ::
  "runtime \<Rightarrow> string \<Rightarrow> string RunResult option \<Rightarrow> run_state \<Rightarrow>
     run_state + run_state \<times> ResearchReport" where
  "step4_report rt query research_result rs =
     (let report_prompt = report_prompt_text par_agent query (findings_text research_result);
          rs1 = emit (RunnerRun editor_agent report_prompt) rs
      in case get_final_output (run_editor rt report_prompt) of
           Inl e \<Rightarrow> Inl (emit (StError (''Error generating report: '' @ e)) rs1)
         | Inr out \<Rightarrow>
             Inr (set_step ''report'' ((fst rs1)\<lparr>report_result := Some out\<rparr>, snd rs1), out))"

text \<open>
  STEP 5: create the comparison (if original content was provided). Its handler reports
  the error and does not return.
\<close>

definition step5_compare ::
  "runtime \<Rightarrow> string option \<Rightarrow> ResearchReport \<Rightarrow> run_state \<Rightarrow> run_state" where
  "step5_compare rt original report_out rs =
     (case truthy_str original of
        None \<Rightarrow> rs
      | Some content \<Rightarrow>
          (let comparison_prompt = comparison_prompt_text par_agent content (report report_out);
               rs1 = emit (RunnerRun comparison_agent comparison_prompt) rs
           in case get_final_output (run_comparison rt comparison_prompt) of
                Inl e \<Rightarrow> emit (StError (''Error in comparison: '' @ e)) rs1
              | Inr out \<Rightarrow>
                  set_step ''comparison'' ((fst rs1)\<lparr>comparison_result := Some out\<rparr>, snd rs1)))"

text \<open>
  The run up to the point where the research stage is about to start: the reset, step 1
  and step 2.
\<close>

definition before_research ::
  "runtime \<Rightarrow> string \<Rightarrow> string option \<Rightarrow> session_state \<Rightarrow> run_state + run_state \<times> ResearchPlan" where
  "before_research rt query original s =
     (case step1_analyze rt query original (reset_results s, []) of
        Inl rs \<Rightarrow> Inl rs
      | Inr (rs1, gaps_data) \<Rightarrow> step2_plan rt query original gaps_data rs1)"

text \<open>
  \<^verbatim>\<open>run_research(query, original_content)\<close>: the session state at the end of the call
  and the events of the run. A failure of steps 1 to 4 returns at once, before
  \<^verbatim>\<open>research_done\<close> is set.
\<close>

definition run_research ::
  "runtime \<Rightarrow> string \<Rightarrow> string option \<Rightarrow> session_state \<Rightarrow> run_state" where
  "run_research rt query original s =
     (case before_research rt query original s of
        Inl rs \<Rightarrow> rs
      | Inr (rs2, research_plan) \<Rightarrow>
          (case step3_research rt research_plan rs2 of
             Inl rs \<Rightarrow> rs
           | Inr (rs3, research_result) \<Rightarrow>
               (case step4_report rt query research_result rs3 of
                  Inl rs \<Rightarrow> rs
                | Inr (rs4, report_out) \<Rightarrow>
                    (let rs5 = step5_compare rt original report_out rs4
                     in ((fst rs5)\<lparr>research_done := True\<rparr>, snd rs5)))))"

section \<open>The workflow of \<^verbatim>\<open>research_agent.py\<close>\<close>

text \<open>
  The same five steps with no \<^verbatim>\<open>try\<close> around them and no assignment to
  \<^verbatim>\<open>step_completed\<close>: an exception leaves \<^verbatim>\<open>run_research\<close>. A step returns the
  state it reached together with the exception (\<open>Inl\<close>) or its local variables.
\<close>

definition step1_analyze_RA ::
  "runtime \<Rightarrow> string \<Rightarrow> string option \<Rightarrow> run_state \<Rightarrow> run_state \<times> (string + ResearchGaps option)" where
  "step1_analyze_RA rt query original rs =
     (case truthy_str original of
        None \<Rightarrow> (rs, Inr None)
      | Some content \<Rightarrow>
          (let gap_prompt = gap_prompt_text par_RA content query;
               rs1 = emit (RunnerRun gap_analysis_agent gap_prompt) rs
           in case get_final_output (run_gap_analysis rt gap_prompt) of
                Inl e \<Rightarrow> (rs1, Inl e)
              | Inr out \<Rightarrow> (rs1, Inr (Some out))))"

definition step2_plan_RA ::
  "runtime \<Rightarrow> string \<Rightarrow> string option \<Rightarrow> ResearchGaps option \<Rightarrow> run_state \<Rightarrow>
     run_state \<times> (string + ResearchPlan)" where
  "step2_plan_RA rt query original gaps_data rs =
     (let plan_prompt = plan_prompt_for rt par_RA query original gaps_data;
          rs1 = emit (RunnerRun planning_agent plan_prompt) rs
      in (rs1, get_final_output (run_planning rt plan_prompt)))"

definition step3_research_RA ::
  "runtime \<Rightarrow> ResearchPlan \<Rightarrow> run_state \<Rightarrow> run_state \<times> (string + string RunResult option)" where
  "step3_research_RA rt research_plan rs =
     (let research_prompt = research_prompt_text par_RA research_plan;
          rs1 = emit (RunnerRun research_agent research_prompt) rs;
          rs2 = (run_tool_calls (fst (run_researcher rt research_prompt)) (fst rs1), snd rs1)
      in (rs2, snd (run_researcher rt research_prompt)))"

definition step4_report_RA ::
  "runtime \<Rightarrow> string \<Rightarrow> string RunResult option \<Rightarrow> run_state \<Rightarrow>
     run_state \<times> (string + ResearchReport)" where
  "step4_report_RA rt query research_result rs =
     (let report_prompt = report_prompt_text par_RA query (findings_text research_result);
          rs1 = emit (RunnerRun editor_agent report_prompt) rs
      in case get_final_output (run_editor rt report_prompt) of
           Inl e \<Rightarrow> (rs1, Inl e)
         | Inr out \<Rightarrow> (((fst rs1)\<lparr>report_result := Some out\<rparr>, snd rs1), Inr out))"

definition step5_compare_RA ::
  "runtime \<Rightarrow> string option \<Rightarrow> ResearchReport \<Rightarrow> run_state \<Rightarrow> run_state \<times> string option" where
  "step5_compare_RA rt original report_out rs =
     (case truthy_str original of
        None \<Rightarrow> (rs, None)
      | Some content \<Rightarrow>
          (let comparison_prompt = comparison_prompt_text par_RA content (report report_out);
               rs1 = emit (RunnerRun comparison_agent comparison_prompt) rs
           in case get_final_output (run_comparison rt comparison_prompt) of
                Inl e \<Rightarrow> (rs1, Some e)
              | Inr out \<Rightarrow> (((fst rs1)\<lparr>comparison_result := Some out\<rparr>, snd rs1), None)))"

definition before_research_RA ::
  "runtime \<Rightarrow> string \<Rightarrow> string option \<Rightarrow> session_state \<Rightarrow> run_state \<times> (string + ResearchPlan)" where
  "before_research_RA rt query original s =
     (case step1_analyze_RA rt query original (reset_results s, []) of
        (rs, Inl e) \<Rightarrow> (rs, Inl e)
      | (rs1, Inr gaps_data) \<Rightarrow> step2_plan_RA rt query original gaps_data rs1)"

text \<open>
  \<^verbatim>\<open>run_research\<close> of \<^verbatim>\<open>research_agent.py\<close>: the state and events at the end, and the
  exception that left the call, if any. After the five steps the function draws the report
  tab (\<open>report_tab\<close> above) and the comparison tab, which change nothing in the session
  state, and sets \<^verbatim>\<open>research_done\<close>; an exception skips all of that.
\<close>

definition run_research_RA ::
  "runtime \<Rightarrow> string \<Rightarrow> string option \<Rightarrow> session_state \<Rightarrow> run_state \<times> string option" where
  "run_research_RA rt query original s =
     (case before_research_RA rt query original s of
        (rs, Inl e) \<Rightarrow> (rs, Some e)
      | (rs2, Inr research_plan) \<Rightarrow>
          (case step3_research_RA rt research_plan rs2 of
             (rs, Inl e) \<Rightarrow> (rs, Some e)
           | (rs3, Inr research_result) \<Rightarrow>
               (case step4_report_RA rt query research_result rs3 of
                  (rs, Inl e) \<Rightarrow> (rs, Some e)
                | (rs4, Inr report_out) \<Rightarrow>
                    (case step5_compare_RA rt original report_out rs4 of
                       (rs, Some e) \<Rightarrow> (rs, Some e)
                     | (rs5, None) \<Rightarrow> (((fst rs5)\<lparr>research_done := True\<rparr>, snd rs5), None)))))"

section \<open>Running the research from the page\<close>

text \<open>
  The file \<^verbatim>\<open>st.file_uploader\<close> returned: its name, its media type, and its content as
  each of the two loaders reads it.
\<close>

record uploaded_file =
  upload_name :: string
  upload_type :: string
  as_pdf :: pdf_file
  as_text :: text_file

text \<open>\<^verbatim>\<open>if uploaded_file: st.session_state.step_completed["upload"] = True\<close>.\<close>

definition mark_upload :: "uploaded_file option \<Rightarrow> run_state \<Rightarrow> run_state" where
  "mark_upload uploaded rs = (case uploaded of None \<Rightarrow> rs | Some f \<Rightarrow> set_step ''upload'' rs)"

text \<open>
  The block \<^verbatim>\<open>if start_button:\<close> of \<^verbatim>\<open>agent.py\<close>. Its two handlers are never
  entered: the loaders and \<^verbatim>\<open>run_research\<close> catch their own exceptions.
\<close>

definition load_uploaded_file :: "uploaded_file option \<Rightarrow> string option \<times> event list" where
  "load_uploaded_file uploaded =
     (case uploaded of
        None \<Rightarrow> (None, [])
      | Some f \<Rightarrow>
          if upload_type f = ''application/pdf'' then extract_pdf_text (as_pdf f)
          else extract_text_file (as_text f))"

definition start_research ::
  "runtime \<Rightarrow> uploaded_file option \<Rightarrow> string \<Rightarrow> session_state \<Rightarrow> run_state" where
  "start_research rt uploaded research_query s =
     (let rs0 = mark_upload uploaded (s, []);
          loaded = load_uploaded_file uploaded;
          s1 = (fst rs0)\<lparr>original_content := fst loaded\<rparr>;
          rs = run_research rt research_query (fst loaded) s1
      in (fst rs, snd rs0 @ snd loaded @ snd rs))"

text \<open>
  The same block of \<^verbatim>\<open>research_agent.py\<close>: a loader's exception is reported and the run
  goes on without a document; an exception of \<^verbatim>\<open>run_research\<close> is reported and
  \<^verbatim>\<open>research_done\<close> is set by the handler.
\<close>

definition load_uploaded_file_RA :: "uploaded_file option \<Rightarrow> string option \<times> event list" where
  "load_uploaded_file_RA uploaded =
     (case uploaded of
        None \<Rightarrow> (None, [])
      | Some f \<Rightarrow>
          (case (if upload_type f = ''application/pdf'' then extract_pdf_text_RA (as_pdf f)
                 else extract_text_file_RA (as_text f)) of
             Inl e \<Rightarrow> (None, [StError (''Error reading file: '' @ e)])
           | Inr text \<Rightarrow> (Some text, [])))"

definition start_research_RA ::
  "runtime \<Rightarrow> uploaded_file option \<Rightarrow> string \<Rightarrow> session_state \<Rightarrow> run_state" where
  "start_research_RA rt uploaded research_query s =
     (let rs0 = mark_upload uploaded (s, []);
          loaded = load_uploaded_file_RA uploaded;
          run = run_research_RA rt research_query (fst loaded) (fst rs0);
          evs = snd rs0 @ snd loaded @ snd (fst run)
      in case snd run of
           None \<Rightarrow> (fst (fst run), evs)
         | Some e \<Rightarrow>
             ((fst (fst run))\<lparr>research_done := True\<rparr>,
              evs @ [StError (''An error occurred: '' @ e)]))"

subsection \<open>Reading the events of a run\<close>

text \<open>The agents \<^verbatim>\<open>Runner.run\<close> was called with, and the completion flags that were set.\<close>

fun invoked_agents :: "event list \<Rightarrow> agent list" where
  "invoked_agents [] = []"
| "invoked_agents (RunnerRun a p # evs) = a # invoked_agents evs"
| "invoked_agents (ev # evs) = invoked_agents evs"

fun steps_set :: "event list \<Rightarrow> string list" where
  "steps_set [] = []"
| "steps_set (SetStepCompleted key # evs) = key # steps_set evs"
| "steps_set (ev # evs) = steps_set evs"

fun prompts_of :: "agent \<Rightarrow> event list \<Rightarrow> string list" where
  "prompts_of a [] = []"
| "prompts_of a (RunnerRun b p # evs) = (if a = b then p # prompts_of a evs else prompts_of a evs)"
| "prompts_of a (ev # evs) = prompts_of a evs"

section \<open>Example inputs\<close>

text \<open>Concrete inputs on which the theorems below are instantiated.\<close>

definition demo_clock :: datetime where
  "demo_clock = \<lparr>year = 2025, month = 3, day = 9, hour = 14, minute = 5, second = 7\<rparr>"

definition demo_gaps :: ResearchGaps where
  "demo_gaps = \<lparr>gaps = [''no data after 2020''], improvements = [''add sources''],
                 areas_to_expand = [''costs'']\<rparr>"

definition demo_plan :: ResearchPlan where
  "demo_plan = \<lparr>topic = ''tides'', search_queries = [''tide tables'', ''tidal power''],
                 focus_areas = [''energy'']\<rparr>"

definition empty_queries_plan :: ResearchPlan where
  "empty_queries_plan = \<lparr>topic = ''tides'', search_queries = [], focus_areas = [''energy'']\<rparr>"

definition demo_report :: ResearchReport where
  "demo_report = \<lparr>title = ''Tides'', outline = [''Intro''],
                   report = ''# Title\<newline>\<newline>Body'', sources = [''a.org''],
                   word_count = 3\<rparr>"

definition demo_comparison :: Comparison where
  "demo_comparison = \<lparr>original_summary = ''short'', improvements_made = [''longer''],
                       quality_assessment = ''better'', depth_increase = ''some'',
                       new_insights = [''tidal power'']\<rparr>"

text \<open>A runtime in which every agent returns; the research agent saves two facts.\<close>

definition demo_runtime :: runtime where
  "demo_runtime =
     \<lparr>run_gap_analysis = (\<lambda>p. Inr (Some (RunResult demo_gaps))),
      run_planning = (\<lambda>p. Inr (Some (RunResult demo_plan))),
      run_researcher = (\<lambda>p. ([(''high tide twice a day'', Some ''noaa.gov'', demo_clock),
                               (''spring tides at full moon'', None, demo_clock)],
                              Inr (Some (RunResult ''Tides follow the moon.'')))),
      run_editor = (\<lambda>p. Inr (Some (RunResult demo_report))),
      run_comparison = (\<lambda>p. Inr (Some (RunResult demo_comparison))),
      str_gaps = (\<lambda>g. ''gaps'')\<rparr>"

text \<open>The same runtime with one agent changed.\<close>

definition research_raises :: runtime where
  "research_raises =
     demo_runtime\<lparr>run_researcher :=
       (\<lambda>p. ([(''high tide twice a day'', None, demo_clock)], Inl ''rate limit reached''))\<rparr>"

definition research_silent :: runtime where
  "research_silent = demo_runtime\<lparr>run_researcher := (\<lambda>p. ([], Inr (Some (RunResult []))))\<rparr>"

definition research_returns_nothing :: runtime where
  "research_returns_nothing = demo_runtime\<lparr>run_researcher := (\<lambda>p. ([], Inr None))\<rparr>"

definition comparison_raises :: runtime where
  "comparison_raises = demo_runtime\<lparr>run_comparison := (\<lambda>p. Inl ''timed out'')\<rparr>"

definition plans_no_queries :: runtime where
  "plans_no_queries =
     demo_runtime\<lparr>run_planning := (\<lambda>p. Inr (Some (RunResult empty_queries_plan)))\<rparr>"

definition fresh_session :: session_state where
  "fresh_session = initial_session_state ''0123456789abcdef''"

definition demo_upload :: uploaded_file where
  "demo_upload =
     \<lparr>upload_name = ''old.txt'', upload_type = ''text/plain'',
      as_pdf = Inl ''not a PDF'', as_text = Inr ''Tides are regular.''\<rparr>"

section \<open>Auxiliary lemmas\<close>

subsection \<open>Events\<close>

lemma invoked_agents_append: "invoked_agents (xs @ ys) = invoked_agents xs @ invoked_agents ys"
  by (induction xs rule: invoked_agents.induct) simp_all
lemma steps_set_append: "steps_set (xs @ ys) = steps_set xs @ steps_set ys"
  by (induction xs rule: steps_set.induct) simp_all
lemma prompts_of_append: "prompts_of a (xs @ ys) = prompts_of a xs @ prompts_of a ys"
  by (induction a xs rule: prompts_of.induct) simp_all

lemma RunnerRun_invoked: "RunnerRun a p \<in> set evs \<Longrightarrow> a \<in> set (invoked_agents evs)"
  by (induction evs rule: invoked_agents.induct) auto

lemma RunnerRun_prompts_of: "RunnerRun a p \<in> set evs \<longleftrightarrow> p \<in> set (prompts_of a evs)"
  by (induction a evs rule: prompts_of.induct) auto

subsection \<open>The runs, path by path\<close>

text \<open>The tool of the research agent changes nothing but the collected facts.\<close>

lemma run_tool_calls_frame:
  "step_completed (run_tool_calls calls s) = step_completed s \<and>
   report_result (run_tool_calls calls s) = report_result s \<and>
   comparison_result (run_tool_calls calls s) = comparison_result s \<and>
   research_done (run_tool_calls calls s) = research_done s \<and>
   conversation_id (run_tool_calls calls s) = conversation_id s \<and>
   original_content (run_tool_calls calls s) = original_content s \<and>
   current_step (run_tool_calls calls s) = current_step s"
  by (induction calls s rule: run_tool_calls.induct) (simp_all add: save_important_fact_def Let_def)

text \<open>
  What is known when the research stage is about to start (\<open>Inr\<close>), and when the run has
  ended before it (\<open>Inl\<close>).
\<close>

lemma before_research_Inl:
  assumes "before_research rt q oc s = Inl rs"
  shows "fst rs = reset_results s \<and> steps_set (snd rs) = [] \<and>
         set (invoked_agents (snd rs)) \<subseteq> {gap_analysis_agent, planning_agent} \<and>
         (truthy_str oc = None \<longrightarrow> gap_analysis_agent \<notin> set (invoked_agents (snd rs))) \<and>
         (\<forall>pp \<in> set (prompts_of planning_agent (snd rs)).
            isl (get_final_output (run_planning rt pp)))"
  using assms
  by (auto simp: before_research_def step1_analyze_def step2_plan_def emit_def set_step_def Let_def
           split: sum.splits option.splits prod.splits)

lemma before_research_Inr:
  assumes "before_research rt q oc s = Inr (rs, plan)"
  shows "fst rs = (reset_results s)\<lparr>step_completed := (step_completed s)(''planning'' \<mapsto> True)\<rparr> \<and>
         steps_set (snd rs) = [''planning''] \<and>
         set (invoked_agents (snd rs)) \<subseteq> {gap_analysis_agent, planning_agent} \<and>
         (truthy_str oc = None \<longrightarrow> gap_analysis_agent \<notin> set (invoked_agents (snd rs))) \<and>
         (\<exists>pp. prompts_of planning_agent (snd rs) = [pp] \<and>
               get_final_output (run_planning rt pp) = Inr plan)"
  using assms
  by (auto simp: before_research_def step1_analyze_def step2_plan_def emit_def set_step_def Let_def
                 reset_results_def
           split: sum.splits option.splits prod.splits)

lemma not_invoked_prompts: "a \<notin> set (invoked_agents evs) \<Longrightarrow> prompts_of a evs = []"
  by (induction a evs rule: prompts_of.induct) auto

text \<open>
  A run of \<^verbatim>\<open>agent.py\<close> takes one of six paths; on each the final state and the events
  are known in full, after the events of the first two steps.
\<close>

lemma run_research_cases [case_names aborted research_failed report_failed no_document
    comparison_failed compared]:
  obtains
    (aborted) rs where
      "before_research rt q oc s = Inl rs"
      "run_research rt q oc s = rs"
  | (research_failed) rs plan e where
      "before_research rt q oc s = Inr (rs, plan)"
      "snd (run_researcher rt (research_prompt_text par_agent plan)) = Inl e"
      "run_research rt q oc s =
         (run_tool_calls (fst (run_researcher rt (research_prompt_text par_agent plan))) (fst rs),
          snd rs @ [RunnerRun research_agent (research_prompt_text par_agent plan),
                    StError (''Error in research: '' @ e)])"
  | (report_failed) rs plan r e where
      "before_research rt q oc s = Inr (rs, plan)"
      "snd (run_researcher rt (research_prompt_text par_agent plan)) = Inr r"
      "get_final_output (run_editor rt (report_prompt_text par_agent q (findings_text r))) = Inl e"
      "run_research rt q oc s =
         ((run_tool_calls (fst (run_researcher rt (research_prompt_text par_agent plan))) (fst rs))
            \<lparr>step_completed := (step_completed (fst rs))(''research'' \<mapsto> True)\<rparr>,
          snd rs @ [RunnerRun research_agent (research_prompt_text par_agent plan),
                    SetStepCompleted ''research'',
                    RunnerRun editor_agent (report_prompt_text par_agent q (findings_text r)),
                    StError (''Error generating report: '' @ e)])"
  | (no_document) rs plan r rep where
      "before_research rt q oc s = Inr (rs, plan)"
      "snd (run_researcher rt (research_prompt_text par_agent plan)) = Inr r"
      "get_final_output (run_editor rt (report_prompt_text par_agent q (findings_text r))) = Inr rep"
      "truthy_str oc = None"
      "run_research rt q oc s =
         ((run_tool_calls (fst (run_researcher rt (research_prompt_text par_agent plan))) (fst rs))
            \<lparr>step_completed := (step_completed (fst rs))(''research'' \<mapsto> True, ''report'' \<mapsto> True),
             report_result := Some rep, research_done := True\<rparr>,
          snd rs @ [RunnerRun research_agent (research_prompt_text par_agent plan),
                    SetStepCompleted ''research'',
                    RunnerRun editor_agent (report_prompt_text par_agent q (findings_text r)),
                    SetStepCompleted ''report''])"
  | (comparison_failed) rs plan r rep c e where
      "before_research rt q oc s = Inr (rs, plan)"
      "snd (run_researcher rt (research_prompt_text par_agent plan)) = Inr r"
      "get_final_output (run_editor rt (report_prompt_text par_agent q (findings_text r))) = Inr rep"
      "truthy_str oc = Some c"
      "get_final_output (run_comparison rt (comparison_prompt_text par_agent c (report rep))) = Inl e"
      "run_research rt q oc s =
         ((run_tool_calls (fst (run_researcher rt (research_prompt_text par_agent plan))) (fst rs))
            \<lparr>step_completed := (step_completed (fst rs))(''research'' \<mapsto> True, ''report'' \<mapsto> True),
             report_result := Some rep, research_done := True\<rparr>,
          snd rs @ [RunnerRun research_agent (research_prompt_text par_agent plan),
                    SetStepCompleted ''research'',
                    RunnerRun editor_agent (report_prompt_text par_agent q (findings_text r)),
                    SetStepCompleted ''report'',
                    RunnerRun comparison_agent (comparison_prompt_text par_agent c (report rep)),
                    StError (''Error in comparison: '' @ e)])"
  | (compared) rs plan r rep c out where
      "before_research rt q oc s = Inr (rs, plan)"
      "snd (run_researcher rt (research_prompt_text par_agent plan)) = Inr r"
      "get_final_output (run_editor rt (report_prompt_text par_agent q (findings_text r))) = Inr rep"
      "truthy_str oc = Some c"
      "get_final_output (run_comparison rt (comparison_prompt_text par_agent c (report rep))) = Inr out"
      "run_research rt q oc s =
         ((run_tool_calls (fst (run_researcher rt (research_prompt_text par_agent plan))) (fst rs))
            \<lparr>step_completed := (step_completed (fst rs))
                 (''research'' \<mapsto> True, ''report'' \<mapsto> True, ''comparison'' \<mapsto> True),
             report_result := Some rep, comparison_result := Some out, research_done := True\<rparr>,
          snd rs @ [RunnerRun research_agent (research_prompt_text par_agent plan),
                    SetStepCompleted ''research'',
                    RunnerRun editor_agent (report_prompt_text par_agent q (findings_text r)),
                    SetStepCompleted ''report'',
                    RunnerRun comparison_agent (comparison_prompt_text par_agent c (report rep)),
                    SetStepCompleted ''comparison''])"
proof (cases "before_research rt q oc s")
  case (Inl rs)
  then show ?thesis
    using aborted[of rs] by (simp add: run_research_def)
next
  case (Inr pair)
  obtain rs plan where B: "before_research rt q oc s = Inr (rs, plan)"
    using Inr by (cases pair) simp
  show ?thesis
  proof (cases "snd (run_researcher rt (research_prompt_text par_agent plan))")
    case (Inl e)
    then show ?thesis
      using B research_failed[of rs plan e]
      by (simp add: run_research_def step3_research_def emit_def Let_def)
  next
    case R: (Inr r)
    show ?thesis
    proof (cases "get_final_output (run_editor rt (report_prompt_text par_agent q (findings_text r)))")
      case (Inl e)
      then show ?thesis
        using B R report_failed[of rs plan r e]
        by (simp add: run_research_def step3_research_def step4_report_def emit_def set_step_def
              Let_def run_tool_calls_frame)
    next
      case E: (Inr rep)
      show ?thesis
      proof (cases "truthy_str oc")
        case None
        then show ?thesis
          using B R E no_document[of rs plan r rep]
          by (simp add: run_research_def step3_research_def step4_report_def step5_compare_def
                emit_def set_step_def Let_def run_tool_calls_frame)
      next
        case (Some c)
        show ?thesis
        proof (cases "get_final_output (run_comparison rt (comparison_prompt_text par_agent c (report rep)))")
          case (Inl e)
          then show ?thesis
            using B R E Some comparison_failed[of rs plan r rep c e]
            by (simp add: run_research_def step3_research_def step4_report_def step5_compare_def
                  emit_def set_step_def Let_def run_tool_calls_frame)
        next
          case (Inr out)
          then show ?thesis
            using B R E Some compared[of rs plan r rep c out]
            by (simp add: run_research_def step3_research_def step4_report_def step5_compare_def
                  emit_def set_step_def Let_def run_tool_calls_frame)
        qed
      qed
    qed
  qed
qed


text \<open>The same for \<^verbatim>\<open>research_agent.py\<close>.\<close>

lemma before_research_RA_result:
  assumes "before_research_RA rt q oc s = (rs, r)"
  shows "fst rs = reset_results s \<and> steps_set (snd rs) = [] \<and>
         set (invoked_agents (snd rs)) \<subseteq> {gap_analysis_agent, planning_agent} \<and>
         (truthy_str oc = None \<longrightarrow> gap_analysis_agent \<notin> set (invoked_agents (snd rs))) \<and>
         (\<forall>plan. r = Inr plan \<longrightarrow>
            (\<exists>pp. prompts_of planning_agent (snd rs) = [pp] \<and>
                  get_final_output (run_planning rt pp) = Inr plan))"
  using assms
  by (auto simp: before_research_RA_def step1_analyze_RA_def step2_plan_RA_def emit_def Let_def
           split: sum.splits option.splits prod.splits)

lemma run_research_RA_cases [case_names aborted research_failed report_failed no_document
    comparison_failed compared]:
  obtains
    (aborted) rs e where
      "before_research_RA rt q oc s = (rs, Inl e)"
      "run_research_RA rt q oc s = (rs, Some e)"
  | (research_failed) rs plan e where
      "before_research_RA rt q oc s = (rs, Inr plan)"
      "snd (run_researcher rt (research_prompt_text par_RA plan)) = Inl e"
      "run_research_RA rt q oc s =
         ((run_tool_calls (fst (run_researcher rt (research_prompt_text par_RA plan))) (fst rs),
           snd rs @ [RunnerRun research_agent (research_prompt_text par_RA plan)]), Some e)"
  | (report_failed) rs plan r e where
      "before_research_RA rt q oc s = (rs, Inr plan)"
      "snd (run_researcher rt (research_prompt_text par_RA plan)) = Inr r"
      "get_final_output (run_editor rt (report_prompt_text par_RA q (findings_text r))) = Inl e"
      "run_research_RA rt q oc s =
         ((run_tool_calls (fst (run_researcher rt (research_prompt_text par_RA plan))) (fst rs),
           snd rs @ [RunnerRun research_agent (research_prompt_text par_RA plan),
                     RunnerRun editor_agent (report_prompt_text par_RA q (findings_text r))]),
          Some e)"
  | (no_document) rs plan r rep where
      "before_research_RA rt q oc s = (rs, Inr plan)"
      "snd (run_researcher rt (research_prompt_text par_RA plan)) = Inr r"
      "get_final_output (run_editor rt (report_prompt_text par_RA q (findings_text r))) = Inr rep"
      "truthy_str oc = None"
      "run_research_RA rt q oc s =
         (((run_tool_calls (fst (run_researcher rt (research_prompt_text par_RA plan))) (fst rs))
             \<lparr>report_result := Some rep, research_done := True\<rparr>,
           snd rs @ [RunnerRun research_agent (research_prompt_text par_RA plan),
                     RunnerRun editor_agent (report_prompt_text par_RA q (findings_text r))]),
          None)"
  | (comparison_failed) rs plan r rep c e where
      "before_research_RA rt q oc s = (rs, Inr plan)"
      "snd (run_researcher rt (research_prompt_text par_RA plan)) = Inr r"
      "get_final_output (run_editor rt (report_prompt_text par_RA q (findings_text r))) = Inr rep"
      "truthy_str oc = Some c"
      "get_final_output (run_comparison rt (comparison_prompt_text par_RA c (report rep))) = Inl e"
      "run_research_RA rt q oc s =
         (((run_tool_calls (fst (run_researcher rt (research_prompt_text par_RA plan))) (fst rs))
             \<lparr>report_result := Some rep\<rparr>,
           snd rs @ [RunnerRun research_agent (research_prompt_text par_RA plan),
                     RunnerRun editor_agent (report_prompt_text par_RA q (findings_text r)),
                     RunnerRun comparison_agent (comparison_prompt_text par_RA c (report rep))]),
          Some e)"
  | (compared) rs plan r rep c out where
      "before_research_RA rt q oc s = (rs, Inr plan)"
      "snd (run_researcher rt (research_prompt_text par_RA plan)) = Inr r"
      "get_final_output (run_editor rt (report_prompt_text par_RA q (findings_text r))) = Inr rep"
      "truthy_str oc = Some c"
      "get_final_output (run_comparison rt (comparison_prompt_text par_RA c (report rep))) = Inr out"
      "run_research_RA rt q oc s =
         (((run_tool_calls (fst (run_researcher rt (research_prompt_text par_RA plan))) (fst rs))
             \<lparr>report_result := Some rep, comparison_result := Some out, research_done := True\<rparr>,
           snd rs @ [RunnerRun research_agent (research_prompt_text par_RA plan),
                     RunnerRun editor_agent (report_prompt_text par_RA q (findings_text r)),
                     RunnerRun comparison_agent (comparison_prompt_text par_RA c (report rep))]),
          None)"
proof -
  obtain rs b where B: "before_research_RA rt q oc s = (rs, b)"
    by (cases "before_research_RA rt q oc s")
  show ?thesis
  proof (cases b)
    case (Inl e)
    then show ?thesis
      using B aborted[of rs e] by (simp add: run_research_RA_def)
  next
    case P: (Inr plan)
    show ?thesis
    proof (cases "snd (run_researcher rt (research_prompt_text par_RA plan))")
      case (Inl e)
      then show ?thesis
        using B P research_failed[of rs plan e]
        by (simp add: run_research_RA_def step3_research_RA_def emit_def Let_def)
    next
      case R: (Inr r)
      show ?thesis
      proof (cases "get_final_output (run_editor rt (report_prompt_text par_RA q (findings_text r)))")
        case (Inl e)
        then show ?thesis
          using B P R report_failed[of rs plan r e]
          by (simp add: run_research_RA_def step3_research_RA_def step4_report_RA_def emit_def
                Let_def)
      next
        case E: (Inr rep)
        show ?thesis
        proof (cases "truthy_str oc")
          case None
          then show ?thesis
            using B P R E no_document[of rs plan r rep]
            by (simp add: run_research_RA_def step3_research_RA_def step4_report_RA_def
                  step5_compare_RA_def emit_def Let_def)
        next
          case (Some c)
          show ?thesis
          proof (cases "get_final_output (run_comparison rt (comparison_prompt_text par_RA c (report rep)))")
            case (Inl e)
            then show ?thesis
              using B P R E Some comparison_failed[of rs plan r rep c e]
              by (simp add: run_research_RA_def step3_research_RA_def step4_report_RA_def
                    step5_compare_RA_def emit_def Let_def)
          next
            case (Inr out)
            then show ?thesis
              using B P R E Some compared[of rs plan r rep c out]
              by (simp add: run_research_RA_def step3_research_RA_def step4_report_RA_def
                    step5_compare_RA_def emit_def Let_def)
          qed
        qed
      qed
    qed
  qed
qed

subsection \<open>Failures of single stages\<close>

lemma research_failure_agent:
  assumes F: "snd (run_researcher rt rp) = Inl e"
      and H: "RunnerRun research_agent rp \<in> set (snd (run_research rt q oc s))"
  shows "editor_agent \<notin> set (invoked_agents (snd (run_research rt q oc s))) \<and>
         comparison_agent \<notin> set (invoked_agents (snd (run_research rt q oc s))) \<and>
         ''report'' \<notin> set (steps_set (snd (run_research rt q oc s))) \<and>
         step_completed (fst (run_research rt q oc s)) ''report'' = step_completed s ''report''"
proof (cases rule: run_research_cases[of rt q oc s])
  case (aborted rs)
  with before_research_Inl[OF aborted(1)] H show ?thesis
    by (auto dest: RunnerRun_invoked)
next
  case (research_failed rs plan e')
  with before_research_Inr[OF research_failed(1)] show ?thesis
    by (auto simp: invoked_agents_append steps_set_append run_tool_calls_frame reset_results_def)
next
  case (report_failed rs plan r e')
  with before_research_Inr[OF report_failed(1)] H F show ?thesis
    by (auto dest: RunnerRun_invoked)
next
  case (no_document rs plan r rep)
  with before_research_Inr[OF no_document(1)] H F show ?thesis
    by (auto dest: RunnerRun_invoked)
next
  case (comparison_failed rs plan r rep c e')
  with before_research_Inr[OF comparison_failed(1)] H F show ?thesis
    by (auto dest: RunnerRun_invoked)
next
  case (compared rs plan r rep c out)
  with before_research_Inr[OF compared(1)] H F show ?thesis
    by (auto dest: RunnerRun_invoked)
qed

lemma research_failure_RA:
  assumes F: "snd (run_researcher rt rp) = Inl e"
      and H: "RunnerRun research_agent rp \<in> set (snd (fst (run_research_RA rt q oc s)))"
  shows "editor_agent \<notin> set (invoked_agents (snd (fst (run_research_RA rt q oc s)))) \<and>
         comparison_agent \<notin> set (invoked_agents (snd (fst (run_research_RA rt q oc s)))) \<and>
         steps_set (snd (fst (run_research_RA rt q oc s))) = [] \<and>
         step_completed (fst (fst (run_research_RA rt q oc s))) = step_completed s \<and>
         snd (run_research_RA rt q oc s) = Some e"
proof (cases rule: run_research_RA_cases[of rt q oc s])
  case (aborted rs e')
  with before_research_RA_result[OF aborted(1)] H show ?thesis
    by (auto dest: RunnerRun_invoked)
next
  case (research_failed rs plan e')
  with before_research_RA_result[OF research_failed(1)] H F show ?thesis
    by (auto simp: invoked_agents_append steps_set_append run_tool_calls_frame reset_results_def
             dest: RunnerRun_invoked)
next
  case (report_failed rs plan r e')
  with before_research_RA_result[OF report_failed(1)] H F show ?thesis
    by (auto dest: RunnerRun_invoked)
next
  case (no_document rs plan r rep)
  with before_research_RA_result[OF no_document(1)] H F show ?thesis
    by (auto dest: RunnerRun_invoked)
next
  case (comparison_failed rs plan r rep c e')
  with before_research_RA_result[OF comparison_failed(1)] H F show ?thesis
    by (auto dest: RunnerRun_invoked)
next
  case (compared rs plan r rep c out)
  with before_research_RA_result[OF compared(1)] H F show ?thesis
    by (auto dest: RunnerRun_invoked)
qed

lemma get_final_output_result [simp]:
  "get_final_output (Inr (Some (RunResult x))) = Inr x"
  by (simp add: get_final_output_def)

lemma comparison_failure_agent:
  assumes E: "RunnerRun editor_agent ep \<in> set (snd (run_research rt q oc s))"
      and ER: "run_editor rt ep = Inr (Some (RunResult rep))"
      and C: "RunnerRun comparison_agent cp \<in> set (snd (run_research rt q oc s))"
      and CF: "get_final_output (run_comparison rt cp) = Inl e"
  shows "research_done (fst (run_research rt q oc s)) \<and>
         step_completed (fst (run_research rt q oc s)) ''report'' = Some True \<and>
         report_result (fst (run_research rt q oc s)) = Some rep \<and>
         comparison_result (fst (run_research rt q oc s)) = None \<and>
         display_results (fst (run_research rt q oc s)) now = Some (download_button rep now) \<and>
         StError (''Error in comparison: '' @ e) \<in> set (snd (run_research rt q oc s)) \<and>
         ''comparison'' \<notin> set (steps_set (snd (run_research rt q oc s)))"
proof (cases rule: run_research_cases[of rt q oc s])
  case (aborted rs)
  with before_research_Inl[OF aborted(1)] C show ?thesis
    by (auto dest: RunnerRun_invoked)
next
  case (research_failed rs plan e')
  with before_research_Inr[OF research_failed(1)] C show ?thesis
    by (auto dest: RunnerRun_invoked)
next
  case (report_failed rs plan r e')
  with before_research_Inr[OF report_failed(1)] C show ?thesis
    by (auto dest: RunnerRun_invoked)
next
  case (no_document rs plan r rep')
  with before_research_Inr[OF no_document(1)] C show ?thesis
    by (auto dest: RunnerRun_invoked)
next
  case (comparison_failed rs plan r rep' c e')
  note B = before_research_Inr[OF comparison_failed(1)]
  from E B comparison_failed(6)
  have "ep = report_prompt_text par_agent q (findings_text r)"
    by (auto dest: RunnerRun_invoked)
  with ER comparison_failed(3) have rep: "rep' = rep" by simp
  from C B comparison_failed(6)
  have "cp = comparison_prompt_text par_agent c (report rep')"
    by (auto dest: RunnerRun_invoked)
  with CF comparison_failed(5) have e: "e' = e" by simp
  from B comparison_failed(6) rep e show ?thesis
    by (simp add: steps_set_append run_tool_calls_frame reset_results_def display_results_def
          report_tab_def)
next
  case (compared rs plan r rep' c out)
  note B = before_research_Inr[OF compared(1)]
  from C B compared(6)
  have "cp = comparison_prompt_text par_agent c (report rep')"
    by (auto dest: RunnerRun_invoked)
  with CF compared(5) show ?thesis by simp
qed

lemma start_research_RA_events:
  "snd (start_research_RA rt up q s) =
     snd (mark_upload up (s, [])) @ snd (load_uploaded_file_RA up) @
     snd (fst (run_research_RA rt q (fst (load_uploaded_file_RA up)) (fst (mark_upload up (s, []))))) @
     (case snd (run_research_RA rt q (fst (load_uploaded_file_RA up)) (fst (mark_upload up (s, [])))) of
        None \<Rightarrow> [] | Some e \<Rightarrow> [StError (''An error occurred: '' @ e)])"
  by (simp add: start_research_RA_def Let_def split: option.split)

lemma start_research_RA_state:
  "fst (start_research_RA rt up q s) =
     (case snd (run_research_RA rt q (fst (load_uploaded_file_RA up)) (fst (mark_upload up (s, [])))) of
        None \<Rightarrow> fst (fst (run_research_RA rt q (fst (load_uploaded_file_RA up)) (fst (mark_upload up (s, [])))))
      | Some e \<Rightarrow> (fst (fst (run_research_RA rt q (fst (load_uploaded_file_RA up)) (fst (mark_upload up (s, []))))))
                   \<lparr>research_done := True\<rparr>)"
  by (simp add: start_research_RA_def Let_def split: option.split)

lemma mark_upload_facts:
  "invoked_agents (snd (mark_upload up (s, []))) = [] \<and>
   step_completed (fst (mark_upload up (s, []))) ''report'' = step_completed s ''report''"
  by (simp add: mark_upload_def set_step_def split: option.split)

lemma load_uploaded_file_RA_agents: "invoked_agents (snd (load_uploaded_file_RA up)) = []"
  by (simp add: load_uploaded_file_RA_def split: option.split sum.split)

lemma RunnerRun_start_RA:
  "RunnerRun a p \<in> set (snd (start_research_RA rt up q s)) \<Longrightarrow>
   RunnerRun a p \<in> set (snd (fst (run_research_RA rt q (fst (load_uploaded_file_RA up))
                                   (fst (mark_upload up (s, []))))))"
  using mark_upload_facts[of up s] load_uploaded_file_RA_agents[of up]
  by (auto simp: start_research_RA_events dest: RunnerRun_invoked split: option.splits)

lemma comparison_failure_RA:
  assumes E: "RunnerRun editor_agent ep \<in> set (snd (start_research_RA rt up q s))"
      and ER: "run_editor rt ep = Inr (Some (RunResult rep))"
      and C: "RunnerRun comparison_agent cp \<in> set (snd (start_research_RA rt up q s))"
      and CF: "get_final_output (run_comparison rt cp) = Inl e"
  shows "research_done (fst (start_research_RA rt up q s)) \<and>
         report_result (fst (start_research_RA rt up q s)) = Some rep \<and>
         comparison_result (fst (start_research_RA rt up q s)) = None \<and>
         step_completed (fst (start_research_RA rt up q s)) ''report'' = step_completed s ''report'' \<and>
         StError (''An error occurred: '' @ e) \<in> set (snd (start_research_RA rt up q s)) \<and>
         steps_set (snd (start_research_RA rt up q s)) = steps_set (snd (mark_upload up (s, [])))"
proof -
  define oc where "oc = fst (load_uploaded_file_RA up)"
  define s0 where "s0 = fst (mark_upload up (s, []))"
  have E': "RunnerRun editor_agent ep \<in> set (snd (fst (run_research_RA rt q oc s0)))"
    using RunnerRun_start_RA[OF E] by (simp add: oc_def s0_def)
  have C': "RunnerRun comparison_agent cp \<in> set (snd (fst (run_research_RA rt q oc s0)))"
    using RunnerRun_start_RA[OF C] by (simp add: oc_def s0_def)
  have L: "steps_set (snd (load_uploaded_file_RA up)) = []"
    by (simp add: load_uploaded_file_RA_def split: option.split sum.split)
  have S: "step_completed s0 ''report'' = step_completed s ''report''"
    using mark_upload_facts[of up s] by (simp add: s0_def)
  show ?thesis
  proof (cases rule: run_research_RA_cases[of rt q oc s0])
    case (aborted rs e')
    with before_research_RA_result[OF aborted(1)] C' show ?thesis
      by (auto dest: RunnerRun_invoked)
  next
    case (research_failed rs plan e')
    with before_research_RA_result[OF research_failed(1)] C' show ?thesis
      by (auto dest: RunnerRun_invoked)
  next
    case (report_failed rs plan r e')
    with before_research_RA_result[OF report_failed(1)] C' show ?thesis
      by (auto dest: RunnerRun_invoked)
  next
    case (no_document rs plan r rep')
    with before_research_RA_result[OF no_document(1)] C' show ?thesis
      by (auto dest: RunnerRun_invoked)
  next
    case (comparison_failed rs plan r rep' c e')
    note B = before_research_RA_result[OF comparison_failed(1)]
    from E' B comparison_failed(6)
    have "ep = report_prompt_text par_RA q (findings_text r)"
      by (auto dest: RunnerRun_invoked)
    with ER comparison_failed(3) have rep: "rep' = rep" by simp
    from C' B comparison_failed(6)
    have "cp = comparison_prompt_text par_RA c (report rep')"
      by (auto dest: RunnerRun_invoked)
    with CF comparison_failed(5) have e: "e' = e" by simp
    from B comparison_failed(6) rep e L S show ?thesis
      by (simp add: start_research_RA_events start_research_RA_state oc_def[symmetric]
            s0_def[symmetric] steps_set_append run_tool_calls_frame reset_results_def)
  next
    case (compared rs plan r rep' c out)
    note B = before_research_RA_result[OF compared(1)]
    from C' B compared(6)
    have "cp = comparison_prompt_text par_RA c (report rep')"
      by (auto dest: RunnerRun_invoked)
    with CF compared(5) show ?thesis by simp
  qed
qed

lemma reset_results_absorbs:
  "reset_results (s\<lparr>collected_facts := fs, report_result := rr, comparison_result := cr\<rparr>) =
   reset_results s"
  by (simp add: reset_results_def)

lemma report_prompt_both:
  assumes R: "snd (run_researcher rt rp) = Inr r"
  shows "(RunnerRun research_agent rp \<in> set (snd (run_research rt q oc s)) \<longrightarrow>
            prompts_of editor_agent (snd (run_research rt q oc s)) =
              [report_prompt_text par_agent q
                 (case r of None \<Rightarrow> ''Research completed'' | Some res \<Rightarrow> final_output res)]) \<and>
         (RunnerRun research_agent rp \<in> set (snd (fst (run_research_RA rt q oc s))) \<longrightarrow>
            prompts_of editor_agent (snd (fst (run_research_RA rt q oc s))) =
              [report_prompt_text par_RA q
                 (case r of None \<Rightarrow> ''Research completed'' | Some res \<Rightarrow> final_output res)])"
proof (intro conjI impI)
  assume H: "RunnerRun research_agent rp \<in> set (snd (run_research rt q oc s))"
  show "prompts_of editor_agent (snd (run_research rt q oc s)) =
          [report_prompt_text par_agent q
             (case r of None \<Rightarrow> ''Research completed'' | Some res \<Rightarrow> final_output res)]"
  proof (cases "before_research rt q oc s")
    case (Inl rs)
    then have "run_research rt q oc s = rs" by (simp add: run_research_def)
    with before_research_Inl[OF Inl] H show ?thesis
      by (auto dest: RunnerRun_invoked)
  next
    case (Inr pair)
    obtain rs plan where B: "before_research rt q oc s = Inr (rs, plan)"
      using Inr by (cases pair) simp
    note F = before_research_Inr[OF B]
    have no: "prompts_of research_agent (snd rs) = []" "prompts_of editor_agent (snd rs) = []"
      using F by (auto intro!: not_invoked_prompts)
    have "prompts_of research_agent (snd (run_research rt q oc s)) =
            [research_prompt_text par_agent plan]"
      by (cases rule: run_research_cases[of rt q oc s])
         (use B no in \<open>simp_all add: prompts_of_append\<close>)
    with H have rp: "rp = research_prompt_text par_agent plan"
      by (simp add: RunnerRun_prompts_of)
    show ?thesis
      by (cases rule: run_research_cases[of rt q oc s])
         (use B no R rp in \<open>simp_all add: prompts_of_append findings_text_def\<close>)
  qed
next
  assume H: "RunnerRun research_agent rp \<in> set (snd (fst (run_research_RA rt q oc s)))"
  obtain rs b where B: "before_research_RA rt q oc s = (rs, b)"
    by (cases "before_research_RA rt q oc s")
  note F = before_research_RA_result[OF B]
  have no: "prompts_of research_agent (snd rs) = []" "prompts_of editor_agent (snd rs) = []"
    using F by (auto intro!: not_invoked_prompts)
  show "prompts_of editor_agent (snd (fst (run_research_RA rt q oc s))) =
          [report_prompt_text par_RA q
             (case r of None \<Rightarrow> ''Research completed'' | Some res \<Rightarrow> final_output res)]"
  proof (cases b)
    case (Inl e)
    then have "run_research_RA rt q oc s = (rs, Some e)"
      using B by (simp add: run_research_RA_def)
    with no H show ?thesis by (simp add: RunnerRun_prompts_of)
  next
    case (Inr plan)
    have "prompts_of research_agent (snd (fst (run_research_RA rt q oc s))) =
            [research_prompt_text par_RA plan]"
      by (cases rule: run_research_RA_cases[of rt q oc s])
         (use B Inr no in \<open>simp_all add: prompts_of_append\<close>)
    with H have rp: "rp = research_prompt_text par_RA plan"
      by (simp add: RunnerRun_prompts_of)
    show ?thesis
      by (cases rule: run_research_RA_cases[of rt q oc s])
         (use B Inr no R rp in \<open>simp_all add: prompts_of_append findings_text_def\<close>)
  qed
qed

text \<open>
  Within a run of \<^verbatim>\<open>agent.py\<close> a completion flag that is true stays true: the run only
  ever assigns \<^verbatim>\<open>True\<close> to an entry of \<^verbatim>\<open>step_completed\<close>.
\<close>

lemma step_completed_stays_true:
  assumes "step_completed s k = Some True"
  shows "step_completed (fst (run_research rt q oc s)) k = Some True"
proof (cases "before_research rt q oc s")
  case (Inl rs)
  then have "run_research rt q oc s = rs" by (simp add: run_research_def)
  with before_research_Inl[OF Inl] assms show ?thesis by (simp add: reset_results_def)
next
  case (Inr pair)
  obtain rs plan where B: "before_research rt q oc s = Inr (rs, plan)"
    using Inr by (cases pair) simp
  note F = before_research_Inr[OF B]
  show ?thesis
    by (cases rule: run_research_cases[of rt q oc s])
       (use B F assms in \<open>simp_all add: reset_results_def run_tool_calls_frame\<close>)
qed

subsection \<open>The loader and the clock\<close>

lemma extract_pages_all_succeed:
  "\<forall>page \<in> set pages. \<not> isl page \<Longrightarrow>
   extract_pages acc pages = Inr (acc @ concat (map projr pages))"
proof (induction pages arbitrary: acc)
  case Nil
  show ?case by simp
next
  case (Cons page pages)
  then obtain t where "page = Inr t"
    by (cases page) auto
  with Cons show ?case by simp
qed

lemma extract_pages_some_fails:
  "\<exists>page \<in> set pages. isl page \<Longrightarrow> isl (extract_pages acc pages)"
proof (induction pages arbitrary: acc)
  case Nil
  then show ?case by simp
next
  case (Cons page pages)
  show ?case
  proof (cases page)
    case (Inl e)
    then show ?thesis by simp
  next
    case (Inr t)
    with Cons.prems have "\<exists>p \<in> set pages. isl p" by auto
    with Cons.IH Inr show ?thesis by simp
  qed
qed

lemma extract_pages_first_failure:
  "extract_pages acc (map Inr texts @ Inl e # rest) = Inl e"
  by (induction texts arbitrary: acc) simp_all

lemma is_digit_digit: "is_digit (digit k)"
  unfolding is_digit_def digit_def by (rule nth_mem) simp

lemma below_ten: "m < 10 \<Longrightarrow>
  m = 0 \<or> m = 1 \<or> m = 2 \<or> m = 3 \<or> m = 4 \<or> m = 5 \<or> m = 6 \<or> m = 7 \<or> m = 8 \<or> m = (9::nat)"
  by arith

lemma of_char_digit: "of_char (digit k) = (48::nat) + k mod 10"
proof -
  have "k mod 10 < 10" by simp
  from below_ten[OF this] show ?thesis
    unfolding digit_def by (elim disjE) simp_all
qed

lemma decimal_one_digit: "n < 10 \<Longrightarrow> decimal n = [digit n]"
  by (simp add: decimal.simps[of n])

lemma decimal_more_digits: "10 \<le> n \<Longrightarrow> decimal n = decimal (n div 10) @ [digit n]"
  by (simp add: decimal.simps[of n])

lemma pad2_two_digits: "n < 100 \<Longrightarrow> pad2 n = [digit (n div 10), digit n]"
proof (cases "n < 10")
  case True
  then show ?thesis
    by (simp add: pad2_def decimal_one_digit digit_def)
next
  case False
  assume "n < 100"
  with False have "10 \<le> n" "n div 10 < 10" by simp_all
  then show ?thesis
    by (simp add: pad2_def decimal_more_digits decimal_one_digit)
qed

lemma decimal_four_digits:
  assumes "1000 \<le> y" "y \<le> 9999"
  shows "decimal y = [digit (y div 1000), digit (y div 100), digit (y div 10), digit y]"
proof -
  have a: "10 \<le> y" "10 \<le> y div 10" "10 \<le> y div 100" "y div 1000 < 10"
    using assms by simp_all
  have b: "y div 10 div 10 = y div 100" "y div 100 div 10 = y div 1000"
    by (simp_all add: div_mult2_eq[symmetric])
  have "decimal y = decimal (y div 10) @ [digit y]"
    using a by (simp add: decimal_more_digits)
  also have "decimal (y div 10) = decimal (y div 100) @ [digit (y div 10)]"
    using a b decimal_more_digits[of "y div 10"] by simp
  also have "decimal (y div 100) = decimal (y div 1000) @ [digit (y div 100)]"
    using a b decimal_more_digits[of "y div 100"] by simp
  also have "decimal (y div 1000) = [digit (y div 1000)]"
    using a by (simp add: decimal_one_digit)
  finally show ?thesis by simp
qed


lemma read_two: "n < 100 \<Longrightarrow> read_decimal [digit (n div 10), digit n] = n"
  by (simp add: read_decimal_def of_char_digit)

lemma read_four:
  assumes "y \<le> 9999"
  shows "read_decimal [digit (y div 1000), digit (y div 100), digit (y div 10), digit y] = y"
proof -
  have c: "y div 100 = y div 10 div 10" "y div 1000 = y div 10 div 10 div 10"
    by (simp_all add: div_mult2_eq[symmetric])
  have "y div 1000 < 10"
    using assms by simp
  then have "y div 10 div 10 div 10 mod 10 = y div 10 div 10 div 10"
    by (simp add: c)
  then show ?thesis
    by (simp add: read_decimal_def of_char_digit c)
qed

lemma strftime_Ymd_HMS_valid:
  assumes "valid_datetime t"
  shows "strftime_Ymd_HMS t =
     [digit (year t div 1000), digit (year t div 100), digit (year t div 10), digit (year t),
      digit (month t div 10), digit (month t), digit (day t div 10), digit (day t), CHR ''_'',
      digit (hour t div 10), digit (hour t), digit (minute t div 10), digit (minute t),
      digit (second t div 10), digit (second t)]"
  using assms
  by (simp add: valid_datetime_def strftime_Ymd_HMS_def decimal_four_digits pad2_two_digits)


lemma valid_demo_clock: "valid_datetime demo_clock"
  by (simp add: valid_datetime_def demo_clock_def)

lemma strftime_Ymd_HMS_demo: "strftime_Ymd_HMS demo_clock = ''20250309_140507''"
  unfolding strftime_Ymd_HMS_valid[OF valid_demo_clock]
  by (simp add: digit_def demo_clock_def)

lemma report_name_of_clock:
  assumes "valid_datetime t"
  shows "matches_report_name (''research_report_'' @ strftime_Ymd_HMS t @ ''.md'') \<and>
         name_clock (''research_report_'' @ strftime_Ymd_HMS t @ ''.md'') = t"
proof -
  have m: "matches_report_name (''research_report_'' @ strftime_Ymd_HMS t @ ''.md'')"
    by (simp add: strftime_Ymd_HMS_valid[OF assms] matches_report_name_def is_digit_digit)
  have "name_clock (''research_report_'' @ strftime_Ymd_HMS t @ ''.md'') =
          \<lparr>year = year t, month = month t, day = day t,
           hour = hour t, minute = minute t, second = second t\<rparr>"
    using assms
    by (simp add: strftime_Ymd_HMS_valid[OF assms] name_clock_def read_two read_four
          valid_datetime_def)
  then have n: "name_clock (''research_report_'' @ strftime_Ymd_HMS t @ ''.md'') = t"
    by simp
  from m n show ?thesis by simp
qed

subsection \<open>Unfolding a run on the example inputs\<close>

lemmas run_eval =
  run_research_def before_research_def step1_analyze_def step2_plan_def step3_research_def
  step4_report_def step5_compare_def emit_def set_step_def Let_def truthy_str_def
  get_final_output_def plan_prompt_for_def reset_results_def save_important_fact_def
  demo_runtime_def research_raises_def research_silent_def research_returns_nothing_def
  comparison_raises_def plans_no_queries_def fresh_session_def initial_session_state_def

lemmas run_RA_eval =
  run_research_RA_def before_research_RA_def step1_analyze_RA_def step2_plan_RA_def
  step3_research_RA_def step4_report_RA_def step5_compare_RA_def emit_def set_step_def Let_def
  truthy_str_def get_final_output_def plan_prompt_for_def reset_results_def
  save_important_fact_def
  demo_runtime_def research_raises_def research_silent_def research_returns_nothing_def
  comparison_raises_def plans_no_queries_def fresh_session_def initial_session_state_def

section \<open>The claims\<close>

subsection \<open>Claim C1: a failure of the research stage ends the run\<close>

text \<open>
  Claim C1. In a run in which the research stage is invoked and its call raises, the editor
  (Drafting) and the comparison agent (Comparing) are never invoked and the run does not set
  the flag \<^verbatim>\<open>step_completed["report"]\<close>: the flag has at the end of the run the value it
  had at its start, so it is false at the end when it was false at the start. This holds for
  \<^verbatim>\<open>agent.py\<close>, where the exception is caught, and for \<^verbatim>\<open>research_agent.py\<close>, where
  it leaves \<^verbatim>\<open>run_research\<close> and no completion flag is touched.
\<close>

theorem research_failure_ends_run:
  assumes "snd (run_researcher rt rp) = Inl e"
  shows
    "(RunnerRun research_agent rp \<in> set (snd (run_research rt q oc s)) \<longrightarrow>
        editor_agent \<notin> set (invoked_agents (snd (run_research rt q oc s))) \<and>
        comparison_agent \<notin> set (invoked_agents (snd (run_research rt q oc s))) \<and>
        ''report'' \<notin> set (steps_set (snd (run_research rt q oc s))) \<and>
        step_completed (fst (run_research rt q oc s)) ''report'' = step_completed s ''report'') \<and>
     (RunnerRun research_agent rp \<in> set (snd (fst (run_research_RA rt q oc s))) \<longrightarrow>
        editor_agent \<notin> set (invoked_agents (snd (fst (run_research_RA rt q oc s)))) \<and>
        comparison_agent \<notin> set (invoked_agents (snd (fst (run_research_RA rt q oc s)))) \<and>
        steps_set (snd (fst (run_research_RA rt q oc s))) = [] \<and>
        step_completed (fst (fst (run_research_RA rt q oc s))) = step_completed s \<and>
        snd (run_research_RA rt q oc s) = Some e)"
  using assms research_failure_agent[of rt rp e q oc s] research_failure_RA[of rt rp e q oc s]
  by blast

theorem research_failure_ends_run_witness:
  "snd (run_researcher research_raises (research_prompt_text par_agent demo_plan)) =
     Inl ''rate limit reached'' \<and>
   RunnerRun research_agent (research_prompt_text par_agent demo_plan)
     \<in> set (snd (run_research research_raises ''tides'' None fresh_session)) \<and>
   editor_agent
     \<notin> set (invoked_agents (snd (run_research research_raises ''tides'' None fresh_session))) \<and>
   comparison_agent
     \<notin> set (invoked_agents (snd (run_research research_raises ''tides'' None fresh_session))) \<and>
   step_completed (fst (run_research research_raises ''tides'' None fresh_session)) ''report'' =
     Some False \<and>
   snd (run_researcher research_raises (research_prompt_text par_RA demo_plan)) =
     Inl ''rate limit reached'' \<and>
   RunnerRun research_agent (research_prompt_text par_RA demo_plan)
     \<in> set (snd (fst (run_research_RA research_raises ''tides'' None fresh_session))) \<and>
   editor_agent
     \<notin> set (invoked_agents (snd (fst (run_research_RA research_raises ''tides'' None fresh_session)))) \<and>
   snd (run_research_RA research_raises ''tides'' None fresh_session) = Some ''rate limit reached''"
proof -
  have f1: "snd (run_researcher research_raises (research_prompt_text par_agent demo_plan)) =
     Inl ''rate limit reached''"
    by (simp add: research_raises_def demo_runtime_def)
  have f2: "snd (run_researcher research_raises (research_prompt_text par_RA demo_plan)) =
     Inl ''rate limit reached''"
    by (simp add: research_raises_def demo_runtime_def)
  have h1: "RunnerRun research_agent (research_prompt_text par_agent demo_plan)
     \<in> set (snd (run_research research_raises ''tides'' None fresh_session))"
    by (simp add: run_eval)
  have h2: "RunnerRun research_agent (research_prompt_text par_RA demo_plan)
     \<in> set (snd (fst (run_research_RA research_raises ''tides'' None fresh_session)))"
    by (simp add: run_RA_eval)
  have s0: "step_completed fresh_session ''report'' = Some False"
    by (simp add: fresh_session_def initial_session_state_def)
  from research_failure_ends_run[OF f1, of "''tides''" None fresh_session]
       research_failure_ends_run[OF f2, of "''tides''" None fresh_session]
       f1 f2 h1 h2 s0
  show ?thesis by simp
qed

text \<open>
  The specification's wording, that the flag is false at the end of every such run, fails
  in a session with an earlier run: \<^verbatim>\<open>run_research\<close> never resets
  \<^verbatim>\<open>step_completed\<close>. Below, the first run of a fresh session of \<^verbatim>\<open>agent.py\<close>
  completes its report; in the second run the research stage raises, and the flag is true at
  the end of that run.
\<close>

theorem research_failure_stale_report_flag:
  "step_completed fresh_session ''report'' = Some False \<and>
   step_completed (fst (run_research demo_runtime ''tides'' None fresh_session)) ''report'' =
     Some True \<and>
   snd (run_researcher research_raises (research_prompt_text par_agent demo_plan)) =
     Inl ''rate limit reached'' \<and>
   RunnerRun research_agent (research_prompt_text par_agent demo_plan)
     \<in> set (snd (run_research research_raises ''tides'' None
                  (fst (run_research demo_runtime ''tides'' None fresh_session)))) \<and>
   step_completed
     (fst (run_research research_raises ''tides'' None
            (fst (run_research demo_runtime ''tides'' None fresh_session)))) ''report'' =
     Some True"
  by (simp add: run_eval)

subsection \<open>Claim C2: a failure of the comparison does not undo the report\<close>

text \<open>
  Claim C2. Take a run in which the editor is invoked and returns the report \<open>rep\<close>, and
  the comparison agent is then invoked and fails (its call raises, or returns nothing to
  read \<^verbatim>\<open>final_output\<close> from). In \<^verbatim>\<open>agent.py\<close> the failure is reported, the run ends
  with \<^verbatim>\<open>research_done\<close> set, \<^verbatim>\<open>step_completed["report"]\<close> true, the report in
  \<^verbatim>\<open>report_result\<close> and offered for download, and no comparison result. In
  \<^verbatim>\<open>research_agent.py\<close> the exception leaves \<^verbatim>\<open>run_research\<close>; the block that started
  the run reports it and sets \<^verbatim>\<open>research_done\<close>, the report stays in
  \<^verbatim>\<open>report_result\<close> and there is no comparison result, but
  \<^verbatim>\<open>step_completed["report"]\<close> keeps the value it had: that script sets no completion
  flag but \<^verbatim>\<open>upload\<close>.
\<close>

theorem comparison_failure_keeps_report:
  assumes "run_editor rt ep = Inr (Some (RunResult rep))"
      and "get_final_output (run_comparison rt cp) = Inl e"
  shows
    "(RunnerRun editor_agent ep \<in> set (snd (run_research rt q oc s)) \<and>
      RunnerRun comparison_agent cp \<in> set (snd (run_research rt q oc s)) \<longrightarrow>
        research_done (fst (run_research rt q oc s)) \<and>
        step_completed (fst (run_research rt q oc s)) ''report'' = Some True \<and>
        report_result (fst (run_research rt q oc s)) = Some rep \<and>
        comparison_result (fst (run_research rt q oc s)) = None \<and>
        display_results (fst (run_research rt q oc s)) now = Some (download_button rep now) \<and>
        StError (''Error in comparison: '' @ e) \<in> set (snd (run_research rt q oc s)) \<and>
        ''comparison'' \<notin> set (steps_set (snd (run_research rt q oc s)))) \<and>
     (RunnerRun editor_agent ep \<in> set (snd (start_research_RA rt up q s)) \<and>
      RunnerRun comparison_agent cp \<in> set (snd (start_research_RA rt up q s)) \<longrightarrow>
        research_done (fst (start_research_RA rt up q s)) \<and>
        report_result (fst (start_research_RA rt up q s)) = Some rep \<and>
        comparison_result (fst (start_research_RA rt up q s)) = None \<and>
        step_completed (fst (start_research_RA rt up q s)) ''report'' = step_completed s ''report'' \<and>
        StError (''An error occurred: '' @ e) \<in> set (snd (start_research_RA rt up q s)) \<and>
        steps_set (snd (start_research_RA rt up q s)) = steps_set (snd (mark_upload up (s, []))))"
  using assms comparison_failure_agent[of ep rt q oc s rep cp e now]
    comparison_failure_RA[of ep rt up q s rep cp e]
  by blast

theorem comparison_failure_keeps_report_witness:
  "run_editor comparison_raises
     (report_prompt_text par_agent ''tides'' ''Tides follow the moon.'') =
     Inr (Some (RunResult demo_report)) \<and>
   get_final_output (run_comparison comparison_raises
     (comparison_prompt_text par_agent ''Tides are regular.'' (report demo_report))) =
     Inl ''timed out'' \<and>
   RunnerRun editor_agent (report_prompt_text par_agent ''tides'' ''Tides follow the moon.'')
     \<in> set (snd (run_research comparison_raises ''tides'' (Some ''Tides are regular.'') fresh_session)) \<and>
   RunnerRun comparison_agent
       (comparison_prompt_text par_agent ''Tides are regular.'' (report demo_report))
     \<in> set (snd (run_research comparison_raises ''tides'' (Some ''Tides are regular.'') fresh_session)) \<and>
   research_done
     (fst (run_research comparison_raises ''tides'' (Some ''Tides are regular.'') fresh_session)) \<and>
   step_completed
     (fst (run_research comparison_raises ''tides'' (Some ''Tides are regular.'') fresh_session))
     ''report'' = Some True \<and>
   report_result
     (fst (run_research comparison_raises ''tides'' (Some ''Tides are regular.'') fresh_session)) =
     Some demo_report \<and>
   comparison_result
     (fst (run_research comparison_raises ''tides'' (Some ''Tides are regular.'') fresh_session)) =
     None \<and>
   RunnerRun editor_agent (report_prompt_text par_RA ''tides'' ''Tides follow the moon.'')
     \<in> set (snd (start_research_RA comparison_raises (Some demo_upload) ''tides'' fresh_session)) \<and>
   RunnerRun comparison_agent
       (comparison_prompt_text par_RA ''Tides are regular.'' (report demo_report))
     \<in> set (snd (start_research_RA comparison_raises (Some demo_upload) ''tides'' fresh_session)) \<and>
   research_done
     (fst (start_research_RA comparison_raises (Some demo_upload) ''tides'' fresh_session)) \<and>
   report_result
     (fst (start_research_RA comparison_raises (Some demo_upload) ''tides'' fresh_session)) =
     Some demo_report"
proof -
  have e1: "run_editor comparison_raises
     (report_prompt_text par_agent ''tides'' ''Tides follow the moon.'') =
     Inr (Some (RunResult demo_report))"
    by (simp add: comparison_raises_def demo_runtime_def)
  have c1: "get_final_output (run_comparison comparison_raises
     (comparison_prompt_text par_agent ''Tides are regular.'' (report demo_report))) =
     Inl ''timed out''"
    by (simp add: comparison_raises_def demo_runtime_def get_final_output_def)
  have h1: "RunnerRun editor_agent (report_prompt_text par_agent ''tides'' ''Tides follow the moon.'')
     \<in> set (snd (run_research comparison_raises ''tides'' (Some ''Tides are regular.'') fresh_session))"
    by (simp add: run_eval findings_text_def)
  have h2: "RunnerRun comparison_agent
       (comparison_prompt_text par_agent ''Tides are regular.'' (report demo_report))
     \<in> set (snd (run_research comparison_raises ''tides'' (Some ''Tides are regular.'') fresh_session))"
    by (simp add: run_eval findings_text_def)
  have e2: "run_editor comparison_raises
     (report_prompt_text par_RA ''tides'' ''Tides follow the moon.'') =
     Inr (Some (RunResult demo_report))"
    by (simp add: comparison_raises_def demo_runtime_def)
  have c2: "get_final_output (run_comparison comparison_raises
     (comparison_prompt_text par_RA ''Tides are regular.'' (report demo_report))) =
     Inl ''timed out''"
    by (simp add: comparison_raises_def demo_runtime_def get_final_output_def)
  have evs: "snd (start_research_RA comparison_raises (Some demo_upload) ''tides'' fresh_session) =
     [SetStepCompleted ''upload'',
      RunnerRun gap_analysis_agent (gap_prompt_text par_RA ''Tides are regular.'' ''tides''),
      RunnerRun planning_agent (plan_prompt_text par_RA ''tides'' ''gaps''),
      RunnerRun research_agent (research_prompt_text par_RA demo_plan),
      RunnerRun editor_agent (report_prompt_text par_RA ''tides'' ''Tides follow the moon.''),
      RunnerRun comparison_agent
        (comparison_prompt_text par_RA ''Tides are regular.'' (report demo_report)),
      StError ''An error occurred: timed out'']"
    by (simp add: start_research_RA_def load_uploaded_file_RA_def mark_upload_def
          extract_text_file_RA_def demo_upload_def run_RA_eval findings_text_def gaps_text_def)
  have h3: "RunnerRun editor_agent (report_prompt_text par_RA ''tides'' ''Tides follow the moon.'')
     \<in> set (snd (start_research_RA comparison_raises (Some demo_upload) ''tides'' fresh_session))"
    by (simp add: evs)
  have h4: "RunnerRun comparison_agent
       (comparison_prompt_text par_RA ''Tides are regular.'' (report demo_report))
     \<in> set (snd (start_research_RA comparison_raises (Some demo_upload) ''tides'' fresh_session))"
    by (simp add: evs)
  from comparison_failure_keeps_report[OF e1 c1,
         of "''tides''" "Some ''Tides are regular.''" fresh_session]
       comparison_failure_keeps_report[OF e2 c2,
         where up = "Some demo_upload" and q = "''tides''" and s = fresh_session]
       e1 c1 h1 h2 h3 h4
  show ?thesis by simp
qed

text \<open>
  The specification's wording asks for \<^verbatim>\<open>step_completed["report"]\<close> to be true at the end
  of every such run. In \<^verbatim>\<open>research_agent.py\<close> it is not: on a fresh session, with an
  uploaded text file, the editor returns its report, the comparison raises, the run is
  marked done with the report kept, and the flag is still false.
\<close>

theorem comparison_failure_report_flag_RA:
  "invoked_agents (snd (start_research_RA comparison_raises (Some demo_upload) ''tides'' fresh_session)) =
     [gap_analysis_agent, planning_agent, research_agent, editor_agent, comparison_agent] \<and>
   StError ''An error occurred: timed out''
     \<in> set (snd (start_research_RA comparison_raises (Some demo_upload) ''tides'' fresh_session)) \<and>
   research_done
     (fst (start_research_RA comparison_raises (Some demo_upload) ''tides'' fresh_session)) \<and>
   report_result
     (fst (start_research_RA comparison_raises (Some demo_upload) ''tides'' fresh_session)) =
     Some demo_report \<and>
   comparison_result
     (fst (start_research_RA comparison_raises (Some demo_upload) ''tides'' fresh_session)) = None \<and>
   step_completed
     (fst (start_research_RA comparison_raises (Some demo_upload) ''tides'' fresh_session))
     ''report'' = Some False"
  by (simp add: start_research_RA_def load_uploaded_file_RA_def mark_upload_def
        extract_text_file_RA_def demo_upload_def run_RA_eval)

subsection \<open>Claim C3: a plan with no search queries\<close>

text \<open>
  Claim C3. \<^verbatim>\<open>run_research\<close> of \<^verbatim>\<open>agent.py\<close> makes no check on the plan. When the
  planning stage is invoked and returns a plan whose \<^verbatim>\<open>search_queries\<close> is empty, the
  run does not stop at planning: \<^verbatim>\<open>step_completed["planning"]\<close> is set and the research
  agent is invoked, once, with the prompt built from that plan, in which the list of
  queries is the empty text.
\<close>

theorem empty_search_queries_reach_research:
  assumes P: "RunnerRun planning_agent pp \<in> set (snd (run_research rt q oc s))"
      and PR: "run_planning rt pp = Inr (Some (RunResult plan))"
      and Q: "search_queries plan = []"
  shows "''planning'' \<in> set (steps_set (snd (run_research rt q oc s))) \<and>
         prompts_of research_agent (snd (run_research rt q oc s)) =
           [research_prompt_text par_agent plan] \<and>
         research_prompt_text par_agent plan =
           ''Research queries to investigate:\<newline>\<newline>Focus areas:\<newline>'' @
           join '', '' (focus_areas plan) @
           ''\<newline>Research these thoroughly and compile findings.''"
proof -
  have shape: "research_prompt_text par_agent plan =
           ''Research queries to investigate:\<newline>\<newline>Focus areas:\<newline>'' @
           join '', '' (focus_areas plan) @
           ''\<newline>Research these thoroughly and compile findings.''"
    by (simp add: research_prompt_text_def par_agent_def Q)
  have ok: "get_final_output (run_planning rt pp) = Inr plan"
    by (simp add: PR)
  have main: "''planning'' \<in> set (steps_set (snd (run_research rt q oc s))) \<and>
         prompts_of research_agent (snd (run_research rt q oc s)) =
           [research_prompt_text par_agent plan]"
  proof (cases "before_research rt q oc s")
    case (Inl rs)
    then have "run_research rt q oc s = rs"
      by (simp add: run_research_def)
    with before_research_Inl[OF Inl] P ok show ?thesis
      by (auto simp: RunnerRun_prompts_of)
  next
    case (Inr pair)
    obtain rs plan' where B: "before_research rt q oc s = Inr (rs, plan')"
      using Inr by (cases pair) simp
    note F = before_research_Inr[OF B]
    then obtain pp' where pp': "prompts_of planning_agent (snd rs) = [pp']"
        "get_final_output (run_planning rt pp') = Inr plan'"
      by blast
    have no: "prompts_of research_agent (snd rs) = []"
      using F by (intro not_invoked_prompts) auto
    have "prompts_of planning_agent (snd (run_research rt q oc s)) = [pp'] \<and>
          ''planning'' \<in> set (steps_set (snd (run_research rt q oc s))) \<and>
          prompts_of research_agent (snd (run_research rt q oc s)) =
            [research_prompt_text par_agent plan']"
      by (cases rule: run_research_cases[of rt q oc s])
         (use B F pp' no in \<open>simp_all add: prompts_of_append steps_set_append\<close>)
    moreover from this P have "pp = pp'"
      by (simp add: RunnerRun_prompts_of)
    ultimately show ?thesis using ok pp' by simp
  qed
  from main shape show ?thesis by simp
qed

theorem empty_search_queries_reach_research_witness:
  "RunnerRun planning_agent (bare_plan_prompt_text ''tides'')
     \<in> set (snd (run_research plans_no_queries ''tides'' None fresh_session)) \<and>
   run_planning plans_no_queries (bare_plan_prompt_text ''tides'') =
     Inr (Some (RunResult empty_queries_plan)) \<and>
   search_queries empty_queries_plan = [] \<and>
   ''planning'' \<in> set (steps_set (snd (run_research plans_no_queries ''tides'' None fresh_session))) \<and>
   prompts_of research_agent (snd (run_research plans_no_queries ''tides'' None fresh_session)) =
     [''Research queries to investigate:\<newline>\<newline>Focus areas:\<newline>energy\<newline>Research these thoroughly and compile findings.'']"
proof -
  have h: "RunnerRun planning_agent (bare_plan_prompt_text ''tides'')
     \<in> set (snd (run_research plans_no_queries ''tides'' None fresh_session))"
    by (simp add: run_eval)
  have p: "run_planning plans_no_queries (bare_plan_prompt_text ''tides'') =
     Inr (Some (RunResult empty_queries_plan))"
    by (simp add: plans_no_queries_def demo_runtime_def)
  have e: "search_queries empty_queries_plan = []"
    by (simp add: empty_queries_plan_def)
  have f: "join '', '' (focus_areas empty_queries_plan) = ''energy''"
    by (simp add: empty_queries_plan_def)
  from empty_search_queries_reach_research[OF h p e] h p e f
  show ?thesis by simp
qed

text \<open>
  The specification's wording, that the run fails at planning and invokes no later stage,
  fails on this run: the planner returns a plan with no query and the research agent and the
  editor are invoked after it.
\<close>

theorem empty_search_queries_not_rejected:
  "run_planning plans_no_queries (bare_plan_prompt_text ''tides'') =
     Inr (Some (RunResult empty_queries_plan)) \<and>
   search_queries empty_queries_plan = [] \<and>
   invoked_agents (snd (run_research plans_no_queries ''tides'' None fresh_session)) =
     [planning_agent, research_agent, editor_agent] \<and>
   steps_set (snd (run_research plans_no_queries ''tides'' None fresh_session)) =
     [''planning'', ''research'', ''report'']"
  by (simp add: run_eval empty_queries_plan_def)

subsection \<open>Claim C4: a run with no reference document\<close>

text \<open>
  Claim C4. In a run of \<^verbatim>\<open>agent.py\<close> with no reference document (\<^verbatim>\<open>original_content\<close>
  is \<^verbatim>\<open>None\<close> or empty), whatever the topic, the gap analysis agent and the comparison
  agent are never invoked, the run never sets \<^verbatim>\<open>step_completed["comparison"]\<close>, which
  keeps the value it had, and no comparison result is stored.
\<close>

theorem no_document_skips_gap_analysis_and_comparison:
  assumes N: "truthy_str oc = None"
  shows "gap_analysis_agent \<notin> set (invoked_agents (snd (run_research rt q oc s))) \<and>
         comparison_agent \<notin> set (invoked_agents (snd (run_research rt q oc s))) \<and>
         ''comparison'' \<notin> set (steps_set (snd (run_research rt q oc s))) \<and>
         step_completed (fst (run_research rt q oc s)) ''comparison'' =
           step_completed s ''comparison'' \<and>
         comparison_result (fst (run_research rt q oc s)) = None"
proof (cases rule: run_research_cases[of rt q oc s])
  case (aborted rs)
  with before_research_Inl[OF aborted(1)] N show ?thesis
    by (auto simp: reset_results_def)
next
  case (research_failed rs plan e')
  with before_research_Inr[OF research_failed(1)] N show ?thesis
    by (auto simp: invoked_agents_append steps_set_append run_tool_calls_frame reset_results_def)
next
  case (report_failed rs plan r e')
  with before_research_Inr[OF report_failed(1)] N show ?thesis
    by (auto simp: invoked_agents_append steps_set_append run_tool_calls_frame reset_results_def)
next
  case (no_document rs plan r rep')
  with before_research_Inr[OF no_document(1)] N show ?thesis
    by (auto simp: invoked_agents_append steps_set_append run_tool_calls_frame reset_results_def)
next
  case (comparison_failed rs plan r rep' c e')
  with N show ?thesis by simp
next
  case (compared rs plan r rep' c out)
  with N show ?thesis by simp
qed

theorem no_document_skips_gap_analysis_and_comparison_witness:
  "truthy_str None = None \<and>
   invoked_agents (snd (run_research demo_runtime ''tides'' None fresh_session)) =
     [planning_agent, research_agent, editor_agent] \<and>
   gap_analysis_agent
     \<notin> set (invoked_agents (snd (run_research demo_runtime ''tides'' None fresh_session))) \<and>
   comparison_agent
     \<notin> set (invoked_agents (snd (run_research demo_runtime ''tides'' None fresh_session))) \<and>
   ''comparison'' \<notin> set (steps_set (snd (run_research demo_runtime ''tides'' None fresh_session))) \<and>
   step_completed (fst (run_research demo_runtime ''tides'' None fresh_session)) ''comparison'' =
     Some False \<and>
   comparison_result (fst (run_research demo_runtime ''tides'' None fresh_session)) = None"
proof -
  have n: "truthy_str None = None"
    by (simp add: truthy_str_def)
  have a: "invoked_agents (snd (run_research demo_runtime ''tides'' None fresh_session)) =
     [planning_agent, research_agent, editor_agent]"
    by (simp add: run_eval)
  have s0: "step_completed fresh_session ''comparison'' = Some False"
    by (simp add: fresh_session_def initial_session_state_def)
  from no_document_skips_gap_analysis_and_comparison[OF n, of demo_runtime "''tides''" fresh_session]
       n a s0
  show ?thesis by simp
qed

subsection \<open>Claim C5: a new run starts from empty results\<close>

text \<open>
  Claim C5. Let \<open>s\<close> be the session state a run left behind, with any number of collected
  facts. The next run of \<^verbatim>\<open>agent.py\<close> first resets the collected facts to the empty list
  and the report and comparison results to \<^verbatim>\<open>None\<close>; when it reaches the research stage
  the snapshot of the fact sink is still empty and both results are still absent; and the
  whole run is the same whatever facts, report and comparison the state \<open>s\<close> held, so no
  stage sees them.
\<close>

theorem new_run_resets_results:
  "snapshot (reset_results s) = [] \<and>
   report_result (reset_results s) = None \<and>
   comparison_result (reset_results s) = None \<and>
   (\<forall>rs plan. before_research rt q oc s = Inr (rs, plan) \<longrightarrow>
      snapshot (fst rs) = [] \<and> report_result (fst rs) = None \<and>
      comparison_result (fst rs) = None) \<and>
   run_research rt q oc (s\<lparr>collected_facts := fs, report_result := rr, comparison_result := cr\<rparr>) =
     run_research rt q oc s"
proof -
  have a: "snapshot (reset_results s) = [] \<and> report_result (reset_results s) = None \<and>
           comparison_result (reset_results s) = None"
    by (simp add: snapshot_def reset_results_def)
  have b: "\<forall>rs plan. before_research rt q oc s = Inr (rs, plan) \<longrightarrow>
      snapshot (fst rs) = [] \<and> report_result (fst rs) = None \<and>
      comparison_result (fst rs) = None"
    using before_research_Inr[of rt q oc s]
    by (auto simp: snapshot_def reset_results_def)
  have c: "run_research rt q oc (s\<lparr>collected_facts := fs, report_result := rr, comparison_result := cr\<rparr>) =
     run_research rt q oc s"
    by (simp only: run_research_def before_research_def reset_results_absorbs)
  from a b c show ?thesis by blast
qed

theorem new_run_resets_results_witness:
  "length (snapshot (fst (run_research demo_runtime ''tides'' None fresh_session))) = 2 \<and>
   report_result (fst (run_research demo_runtime ''tides'' None fresh_session)) = Some demo_report \<and>
   (\<exists>rs. before_research demo_runtime ''moon'' None
            (fst (run_research demo_runtime ''tides'' None fresh_session)) = Inr (rs, demo_plan) \<and>
         snapshot (fst rs) = [] \<and> report_result (fst rs) = None \<and>
         comparison_result (fst rs) = None)"
proof -
  have a: "length (snapshot (fst (run_research demo_runtime ''tides'' None fresh_session))) = 2 \<and>
   report_result (fst (run_research demo_runtime ''tides'' None fresh_session)) = Some demo_report"
    by (simp add: run_eval snapshot_def)
  have b: "\<exists>rs. before_research demo_runtime ''moon'' None
            (fst (run_research demo_runtime ''tides'' None fresh_session)) = Inr (rs, demo_plan)"
    by (simp add: run_eval)
  from new_run_resets_results[of "fst (run_research demo_runtime ''tides'' None fresh_session)"
         demo_runtime "''moon''" None] a b
  show ?thesis by blast
qed

subsection \<open>Claim C6: recording a fact\<close>




subsection \<open>Claim C7: the text of a PDF is all pages or nothing\<close>

text \<open>
  Claim C7. For a PDF whose reader opens and gives the pages \<open>pages\<close>: when the
  extraction of every page succeeds, \<^verbatim>\<open>extract_pdf_text\<close> returns the texts of the pages
  concatenated in document order; when the extraction of some page fails, it returns no
  text at all: \<^verbatim>\<open>agent.py\<close> reports the error of the first failing page and returns
  \<^verbatim>\<open>None\<close>, \<^verbatim>\<open>research_agent.py\<close> lets that exception reach the caller.
\<close>

theorem extract_pdf_text_all_pages_or_nothing:
  "((\<forall>page \<in> set pages. \<not> isl page) \<longrightarrow>
      extract_pdf_text (Inr pages) = (Some (concat (map projr pages)), []) \<and>
      extract_pdf_text_RA (Inr pages) = Inr (concat (map projr pages))) \<and>
   ((\<exists>page \<in> set pages. isl page) \<longrightarrow>
      fst (extract_pdf_text (Inr pages)) = None \<and> isl (extract_pdf_text_RA (Inr pages))) \<and>
   extract_pdf_text (Inr (map Inr texts @ Inl e # rest)) =
     (None, [StError (''Error extracting PDF: '' @ e)]) \<and>
   extract_pdf_text_RA (Inr (map Inr texts @ Inl e # rest)) = Inl e"
proof -
  have a: "(\<forall>page \<in> set pages. \<not> isl page) \<longrightarrow>
      extract_pdf_text (Inr pages) = (Some (concat (map projr pages)), []) \<and>
      extract_pdf_text_RA (Inr pages) = Inr (concat (map projr pages))"
    by (simp add: extract_pdf_text_def extract_pdf_text_RA_def extract_pages_all_succeed)
  have b: "(\<exists>page \<in> set pages. isl page) \<longrightarrow>
      fst (extract_pdf_text (Inr pages)) = None \<and> isl (extract_pdf_text_RA (Inr pages))"
  proof
    assume "\<exists>page \<in> set pages. isl page"
    then have "isl (extract_pages [] pages)"
      by (rule extract_pages_some_fails)
    then show "fst (extract_pdf_text (Inr pages)) = None \<and> isl (extract_pdf_text_RA (Inr pages))"
      by (cases "extract_pages [] pages")
         (simp_all add: extract_pdf_text_def extract_pdf_text_RA_def)
  qed
  have c: "extract_pdf_text (Inr (map Inr texts @ Inl e # rest)) =
     (None, [StError (''Error extracting PDF: '' @ e)]) \<and>
     extract_pdf_text_RA (Inr (map Inr texts @ Inl e # rest)) = Inl e"
    by (simp add: extract_pdf_text_def extract_pdf_text_RA_def extract_pages_first_failure)
  from a b c show ?thesis by blast
qed

theorem extract_pdf_text_all_pages_or_nothing_witness:
  "extract_pdf_text (Inr [Inr ''Page one. '', Inr ''Page two.'']) =
     (Some ''Page one. Page two.'', []) \<and>
   extract_pdf_text_RA (Inr [Inr ''Page one. '', Inr ''Page two.'']) = Inr ''Page one. Page two.'' \<and>
   fst (extract_pdf_text (Inr [Inr ''Page one. '', Inl ''bad stream'', Inr ''Page three.''])) = None \<and>
   isl (extract_pdf_text_RA (Inr [Inr ''Page one. '', Inl ''bad stream'', Inr ''Page three.'']))"
  using extract_pdf_text_all_pages_or_nothing[of "[Inr ''Page one. '', Inr ''Page two.'']" "[]" "[]" "[]"]
    extract_pdf_text_all_pages_or_nothing[of
      "[Inr ''Page one. '', Inl ''bad stream'', Inr ''Page three.'']" "[]" "[]" "[]"]
  by simp

subsection \<open>Claim C8: the prompt of the drafting stage\<close>

text \<open>
  Claim C8. The prompt of the drafting stage embeds the query and a findings text. In a run
  in which the research stage is invoked and its call returns, the editor is invoked once,
  with that prompt, and the findings text is the \<^verbatim>\<open>final_output\<close> of the research run
  whenever \<^verbatim>\<open>Runner.run\<close> returned a run result, empty output included; it is
  the placeholder \<^verbatim>\<open>"Research completed"\<close> exactly when the value \<^verbatim>\<open>Runner.run\<close>
  returned is itself falsy (no run result). The same holds in both files, with their own
  line breaks.
\<close>

theorem report_prompt_embeds_query_and_findings:
  assumes "snd (run_researcher rt rp) = Inr r"
  shows
    "(RunnerRun research_agent rp \<in> set (snd (run_research rt q oc s)) \<longrightarrow>
        prompts_of editor_agent (snd (run_research rt q oc s)) =
          [report_prompt_text par_agent q
             (case r of None \<Rightarrow> ''Research completed'' | Some res \<Rightarrow> final_output res)]) \<and>
     (RunnerRun research_agent rp \<in> set (snd (fst (run_research_RA rt q oc s))) \<longrightarrow>
        prompts_of editor_agent (snd (fst (run_research_RA rt q oc s))) =
          [report_prompt_text par_RA q
             (case r of None \<Rightarrow> ''Research completed'' | Some res \<Rightarrow> final_output res)]) \<and>
     sublist q (report_prompt_text par q findings) \<and>
     sublist findings (report_prompt_text par q findings)"
proof -
  have "sublist q (''Research Query: '' @ q @ (par @ ''Research Findings:\<newline>'' @ findings @ par @
     ''Write a comprehensive, detailed research report (5-10 pages, 1500+ words).\<newline>'' @
     ''Use clear sections, headings, and professional formatting.''))"
    by (rule sublist_appendI)
  then have a: "sublist q (report_prompt_text par q findings)"
    by (simp add: report_prompt_text_def)
  have "sublist findings ((''Research Query: '' @ q @ par @ ''Research Findings:\<newline>'') @ findings @ (par @
     ''Write a comprehensive, detailed research report (5-10 pages, 1500+ words).\<newline>'' @
     ''Use clear sections, headings, and professional formatting.''))"
    by (rule sublist_appendI)
  then have b: "sublist findings (report_prompt_text par q findings)"
    by (simp add: report_prompt_text_def)
  from report_prompt_both[OF assms, of q oc s] a b show ?thesis by blast
qed

theorem report_prompt_embeds_query_and_findings_witness:
  "snd (run_researcher research_returns_nothing (research_prompt_text par_agent demo_plan)) =
     Inr None \<and>
   RunnerRun research_agent (research_prompt_text par_agent demo_plan)
     \<in> set (snd (run_research research_returns_nothing ''tides'' None fresh_session)) \<and>
   prompts_of editor_agent (snd (run_research research_returns_nothing ''tides'' None fresh_session)) =
     [report_prompt_text par_agent ''tides'' ''Research completed''] \<and>
   snd (run_researcher demo_runtime (research_prompt_text par_RA demo_plan)) =
     Inr (Some (RunResult ''Tides follow the moon.'')) \<and>
   RunnerRun research_agent (research_prompt_text par_RA demo_plan)
     \<in> set (snd (fst (run_research_RA demo_runtime ''tides'' None fresh_session))) \<and>
   prompts_of editor_agent (snd (fst (run_research_RA demo_runtime ''tides'' None fresh_session))) =
     [report_prompt_text par_RA ''tides'' ''Tides follow the moon.'']"
proof -
  have r1: "snd (run_researcher research_returns_nothing (research_prompt_text par_agent demo_plan)) =
     Inr None"
    by (simp add: research_returns_nothing_def demo_runtime_def)
  have h1: "RunnerRun research_agent (research_prompt_text par_agent demo_plan)
     \<in> set (snd (run_research research_returns_nothing ''tides'' None fresh_session))"
    by (simp add: run_eval)
  have r2: "snd (run_researcher demo_runtime (research_prompt_text par_RA demo_plan)) =
     Inr (Some (RunResult ''Tides follow the moon.''))"
    by (simp add: demo_runtime_def)
  have h2: "RunnerRun research_agent (research_prompt_text par_RA demo_plan)
     \<in> set (snd (fst (run_research_RA demo_runtime ''tides'' None fresh_session)))"
    by (simp add: run_RA_eval)
  from report_prompt_embeds_query_and_findings[OF r1, of "''tides''" None fresh_session]
       report_prompt_embeds_query_and_findings[OF r2, of "''tides''" None fresh_session]
       r1 h1 r2 h2
  show ?thesis by simp
qed

text \<open>
  The specification's wording, that the placeholder is embedded exactly when the research
  stage returned no textual output, fails: the test is on the run result, not on its
  text. When the research agent returns the empty text, the prompt of the editor embeds
  that empty text and the placeholder occurs nowhere in it.
\<close>

theorem report_prompt_empty_findings_no_placeholder:
  "snd (run_researcher research_silent (research_prompt_text par_agent demo_plan)) =
     Inr (Some (RunResult [])) \<and>
   prompts_of editor_agent (snd (run_research research_silent ''tides'' None fresh_session)) =
     [report_prompt_text par_agent ''tides'' []] \<and>
   \<not> sublist ''Research completed'' (report_prompt_text par_agent ''tides'' [])"
proof -
  have a: "snd (run_researcher research_silent (research_prompt_text par_agent demo_plan)) =
     Inr (Some (RunResult []))"
    by (simp add: research_silent_def demo_runtime_def)
  have b: "prompts_of editor_agent (snd (run_research research_silent ''tides'' None fresh_session)) =
     [report_prompt_text par_agent ''tides'' []]"
    by (simp add: run_eval findings_text_def)
  have c: "\<not> sublist ''Research completed'' (report_prompt_text par_agent ''tides'' [])"
    by (simp add: report_prompt_text_def par_agent_def sublist_code prefix_code)
  from a b c show ?thesis by blast
qed

subsection \<open>Claim C9: the downloaded report\<close>

text \<open>
  Claim C9. The download button is given the \<^verbatim>\<open>report\<close> field of the report as its
  content, unchanged, and the media type \<^verbatim>\<open>text/markdown\<close>. For a clock reading
  \<^verbatim>\<open>datetime.now()\<close> can give from the year 1000 on, the file name is
  \<^verbatim>\<open>research_report_\<close>, eight digits, an underscore, six digits and \<^verbatim>\<open>.md\<close>, and
  the digits are the time of the export: read back as numbers, the groups of digits are
  the year, month, day, hour, minute and second of that clock reading. The button is offered
  for the report held in \<^verbatim>\<open>report_result\<close>.
\<close>

theorem download_button_round_trip:
  assumes "valid_datetime now"
  shows
    "data (download_button rep now) = report rep \<and>
     file_name (download_button rep now) = ''research_report_'' @ strftime_Ymd_HMS now @ ''.md'' \<and>
     matches_report_name (file_name (download_button rep now)) \<and>
     name_clock (file_name (download_button rep now)) = now \<and>
     mime (download_button rep now) = ''text/markdown'' \<and>
     report_tab (s\<lparr>report_result := Some rep\<rparr>) now = Some (download_button rep now) \<and>
     display_results (s\<lparr>report_result := Some rep, research_done := True\<rparr>) now =
       Some (download_button rep now)"
  using report_name_of_clock[OF assms]
  by (simp add: download_button_def report_tab_def display_results_def)

theorem download_button_round_trip_witness:
  "valid_datetime demo_clock \<and>
   data (download_button demo_report demo_clock) = ''# Title\<newline>\<newline>Body'' \<and>
   file_name (download_button demo_report demo_clock) = ''research_report_20250309_140507.md'' \<and>
   matches_report_name ''research_report_20250309_140507.md'' \<and>
   name_clock ''research_report_20250309_140507.md'' = demo_clock \<and>
   mime (download_button demo_report demo_clock) = ''text/markdown''"
proof -
  have t: "strftime_Ymd_HMS demo_clock = ''20250309_140507''"
    by (rule strftime_Ymd_HMS_demo)
  have r: "report demo_report = ''# Title\<newline>\<newline>Body''"
    by (simp add: demo_report_def)
  note T = download_button_round_trip[OF valid_demo_clock, of demo_report fresh_session]
  have a: "data (download_button demo_report demo_clock) = report demo_report"
    using T by blast
  have b: "file_name (download_button demo_report demo_clock) =
      ''research_report_'' @ strftime_Ymd_HMS demo_clock @ ''.md''"
    using T by blast
  have c: "matches_report_name (file_name (download_button demo_report demo_clock))"
    using T by blast
  have n: "name_clock (file_name (download_button demo_report demo_clock)) = demo_clock"
    using T by blast
  have d: "mime (download_button demo_report demo_clock) = ''text/markdown''"
    using T by blast
  have f: "file_name (download_button demo_report demo_clock) =
      ''research_report_20250309_140507.md''"
    by (simp add: b t)
  have m: "matches_report_name ''research_report_20250309_140507.md''"
    using c by (simp only: f)
  have k: "name_clock ''research_report_20250309_140507.md'' = demo_clock"
    using n by (simp only: f)
  show ?thesis
    using valid_demo_clock a r f m k d by (simp only: simp_thms)
qed

subsection \<open>Claim C10: what starting a run leaves alone\<close>

text \<open>
  Claim C10. The assignments at the start of \<^verbatim>\<open>run_research\<close> change the collected
  facts, the flag \<^verbatim>\<open>research_done\<close>, the report result and the comparison result, and
  nothing else: the conversation identifier, the original content, the current step and
  the dictionary \<^verbatim>\<open>step_completed\<close> are as before. So a completion flag that an earlier run
  set to true is still true when a later run starts.
\<close>

theorem starting_a_run_keeps_completion_flags:
  "conversation_id (reset_results s) = conversation_id s \<and>
   step_completed (reset_results s) = step_completed s \<and>
   original_content (reset_results s) = original_content s \<and>
   current_step (reset_results s) = current_step s \<and>
   s\<lparr>collected_facts := collected_facts (reset_results s),
     research_done := research_done (reset_results s),
     report_result := report_result (reset_results s),
     comparison_result := comparison_result (reset_results s)\<rparr> = reset_results s \<and>
   (step_completed s k = Some True \<longrightarrow> step_completed (reset_results s) k = Some True)"
  by (simp add: reset_results_def)

theorem starting_a_run_keeps_completion_flags_witness:
  "step_completed fresh_session ''comparison'' = Some False \<and>
   step_completed
     (fst (run_research demo_runtime ''tides'' (Some ''Tides are regular.'') fresh_session))
     ''comparison'' = Some True \<and>
   step_completed
     (reset_results
        (fst (run_research demo_runtime ''tides'' (Some ''Tides are regular.'') fresh_session)))
     ''comparison'' = Some True \<and>
   conversation_id
     (reset_results
        (fst (run_research demo_runtime ''tides'' (Some ''Tides are regular.'') fresh_session))) =
     ''0123456789abcdef''"
proof -
  have a: "step_completed fresh_session ''comparison'' = Some False"
    by (simp add: fresh_session_def initial_session_state_def)
  have b: "step_completed
     (fst (run_research demo_runtime ''tides'' (Some ''Tides are regular.'') fresh_session))
     ''comparison'' = Some True"
    by (simp add: run_eval)
  have c: "conversation_id
     (fst (run_research demo_runtime ''tides'' (Some ''Tides are regular.'') fresh_session)) =
     ''0123456789abcdef''"
    by (simp add: run_eval)
  from starting_a_run_keeps_completion_flags[of
         "fst (run_research demo_runtime ''tides'' (Some ''Tides are regular.'') fresh_session)"
         "''comparison''"] a b c
  show ?thesis by simp
qed

end
